theory Spec2Isabelle
  imports Main "HOL-Library.AList"
begin

section \<open>Python text, JSON values and exceptions\<close>

text \<open>
  A Python \<open>str\<close> is a sequence of Unicode code points, so it is modelled as a list of
  natural numbers; \<open>u ''abc''\<close> is the text of an ASCII literal.  Fixed texts of the source
  that are not ASCII are written as lists of code points.
\<close>

type_synonym pystr = "nat list"

definition u :: "string \<Rightarrow> pystr" where
  "u cs = map of_char cs"

text \<open>
  The values \<open>json.loads\<close> produces: \<open>None\<close>, \<open>bool\<close>, \<open>int\<close>, \<open>float\<close>, \<open>str\<close>,
  \<open>list\<close> and \<open>dict\<close>.  A float is kept as the literal it was read from; a dict is the list
  of its items in insertion order, with distinct keys.
\<close>

datatype json =
    JNull
  | JBool bool
  | JInt int
  | JFloat pystr
  | JStr pystr
  | JArr "json list"
  | JObj "(pystr \<times> json) list"

datatype jmsg =
    ExpectingValue
  | ExtraData
  | UnterminatedString
  | InvalidControlCharacter
  | InvalidEscape
  | InvalidUXXXXEscape
  | ExpectingPropertyName
  | ExpectingColonDelimiter
  | ExpectingCommaDelimiter

text \<open>
  The instances of \<open>Exception\<close> that occur: \<open>json.JSONDecodeError\<close> with its \<open>msg\<close>,
  \<open>doc\<close> and \<open>pos\<close>; the \<open>TypeError\<close>, \<open>AttributeError\<close> and \<open>KeyError\<close> of an operation
  applied to a value that does not support it, and any other \<open>Exception\<close>, each with the
  text that \<open>str\<close> gives for it.  A fault is an instance of \<open>Exception\<close>: the handlers of
  the source are \<open>except Exception\<close>, and the signals by which the interpreter is left
  (\<open>KeyboardInterrupt\<close>, \<open>SystemExit\<close>), which are none, are outside the model.
\<close>

datatype py_exn =
    JSONDecodeError jmsg pystr nat
  | TypeError pystr
  | AttributeError pystr
  | KeyError pystr
  | OtherException pystr

section \<open>The decoder of the \<open>json\<close> module\<close>

text \<open>
  \<open>json.loads\<close> is the standard library's decoder (\<open>json/decoder.py\<close>, \<open>json/scanner.py\<close>).
  Its functions take the document and an index and return the value with the index where
  it ends; here the document is passed as the suffix that starts at the index, \<open>seek\<close>
  moves it on to a returned index.  Digits and hexadecimal digits are the ASCII ones, and
  the errors inside a string are reported at the positions CPython reports them.
\<close>

datatype scan_exn = StopIteration nat | DecodeError jmsg nat

definition is_ws :: "nat \<Rightarrow> bool" where
  "is_ws c \<longleftrightarrow> c = 0x20 \<or> c = 0x09 \<or> c = 0x0A \<or> c = 0x0D"

definition w_end :: "nat \<Rightarrow> pystr \<Rightarrow> nat" where
  "w_end e s = e + length (takeWhile is_ws s)"

definition skipw :: "pystr \<Rightarrow> pystr" where
  "skipw s = dropWhile is_ws s"

definition seek :: "pystr \<Rightarrow> nat \<Rightarrow> nat \<Rightarrow> pystr" where
  "seek s idx e = drop (e - idx) s"

definition is_digit :: "nat \<Rightarrow> bool" where
  "is_digit c \<longleftrightarrow> 0x30 \<le> c \<and> c \<le> 0x39"

definition hex_value :: "nat \<Rightarrow> nat option" where
  "hex_value c =
     (if 0x30 \<le> c \<and> c \<le> 0x39 then Some (c - 0x30)
      else if 0x41 \<le> c \<and> c \<le> 0x46 then Some (c - 0x41 + 10)
      else if 0x61 \<le> c \<and> c \<le> 0x66 then Some (c - 0x61 + 10)
      else None)"

fun decode_uXXXX :: "pystr \<Rightarrow> nat option" where
  "decode_uXXXX (a # b # c # d # _) =
     (case (hex_value a, hex_value b, hex_value c, hex_value d) of
        (Some x, Some y, Some z, Some w) \<Rightarrow> Some (((x * 16 + y) * 16 + z) * 16 + w)
      | _ \<Rightarrow> None)"
| "decode_uXXXX _ = None"

definition BACKSLASH :: "nat \<Rightarrow> nat option" where
  "BACKSLASH esc =
     (if esc = 0x22 then Some 0x22
      else if esc = 0x5C then Some 0x5C
      else if esc = 0x2F then Some 0x2F
      else if esc = 0x62 then Some 0x08
      else if esc = 0x66 then Some 0x0C
      else if esc = 0x6E then Some 0x0A
      else if esc = 0x72 then Some 0x0D
      else if esc = 0x74 then Some 0x09
      else None)"

text \<open>
  \<open>scanstring begin chunks end s\<close>: the loop of \<open>py_scanstring\<close>, \<open>s\<close> starting at \<open>end\<close>,
  one character after the other; \<open>begin\<close> is the index of the opening quote.
\<close>

fun scanstring :: "nat \<Rightarrow> pystr \<Rightarrow> nat \<Rightarrow> pystr \<Rightarrow> scan_exn + (pystr \<times> nat)" where
  "scanstring begin chunks e [] = Inl (DecodeError UnterminatedString begin)"
| "scanstring begin chunks e (c # cs) =
     (if c = 0x22 then Inr (chunks, e + 1)
      else if c = 0x5C then
        (case cs of
           [] \<Rightarrow> Inl (DecodeError UnterminatedString begin)
         | esc # cs' \<Rightarrow>
             if esc \<noteq> 0x75 then
               (case BACKSLASH esc of
                  None \<Rightarrow> Inl (DecodeError InvalidEscape e)
                | Some ch \<Rightarrow> scanstring begin (chunks @ [ch]) (e + 2) cs')
             else
               (case decode_uXXXX cs' of
                  None \<Rightarrow> Inl (DecodeError InvalidUXXXXEscape (e + 1))
                | Some uni \<Rightarrow>
                    if 0xD800 \<le> uni \<and> uni \<le> 0xDBFF \<and> take 2 (drop 4 cs') = [0x5C, 0x75] then
                      (case decode_uXXXX (drop 6 cs') of
                         None \<Rightarrow> Inl (DecodeError InvalidUXXXXEscape (e + 7))
                       | Some uni2 \<Rightarrow>
                           if 0xDC00 \<le> uni2 \<and> uni2 \<le> 0xDFFF then
                             scanstring begin
                               (chunks @ [0x10000 + ((uni - 0xD800) * 1024 + (uni2 - 0xDC00))])
                               (e + 12) (drop 10 cs')
                           else scanstring begin (chunks @ [uni]) (e + 6) (drop 4 cs'))
                    else scanstring begin (chunks @ [uni]) (e + 6) (drop 4 cs')))
      else if c < 0x20 then Inl (DecodeError InvalidControlCharacter e)
      else scanstring begin (chunks @ [c]) (e + 1) cs)"

definition py_scanstring :: "nat \<Rightarrow> pystr \<Rightarrow> scan_exn + (pystr \<times> nat)" where
  "py_scanstring e s = scanstring (e - 1) [] e s"

text \<open>
  \<open>NUMBER_RE\<close> is \<open>(-?(?:0|[1-9]\d*))(\.\d+)?([eE][-+]?\d+)?\<close>; the three functions give
  the text of its three groups at the start of the suffix (the last two empty when the
  optional group does not take part in the match).
\<close>

definition match_integer :: "pystr \<Rightarrow> pystr option" where
  "match_integer s =
     (let sign = (case s of c # _ \<Rightarrow> if c = 0x2D then [c] else [] | [] \<Rightarrow> []);
          r = drop (length sign) s
      in case r of
           [] \<Rightarrow> None
         | d # r' \<Rightarrow>
             if d = 0x30 then Some (sign @ [d])
             else if is_digit d then Some (sign @ d # takeWhile is_digit r')
             else None)"

definition match_frac :: "pystr \<Rightarrow> pystr" where
  "match_frac s =
     (case s of
        [] \<Rightarrow> []
      | c # r \<Rightarrow> if c = 0x2E \<and> takeWhile is_digit r \<noteq> [] then c # takeWhile is_digit r else [])"

definition match_exp :: "pystr \<Rightarrow> pystr" where
  "match_exp s =
     (case s of
        [] \<Rightarrow> []
      | c # r \<Rightarrow>
          if c = 0x65 \<or> c = 0x45 then
            (let sign = (case r of x # _ \<Rightarrow> if x = 0x2D \<or> x = 0x2B then [x] else [] | [] \<Rightarrow> []);
                 ds = takeWhile is_digit (drop (length sign) r)
             in if ds = [] then [] else c # sign @ ds)
          else [])"

definition digits_value :: "pystr \<Rightarrow> int" where
  "digits_value ds = foldl (\<lambda>a d. 10 * a + int (d - 0x30)) 0 ds"

definition parse_int :: "pystr \<Rightarrow> int" where
  "parse_int s =
     (case s of
        [] \<Rightarrow> 0
      | c # r \<Rightarrow> if c = 0x2D then - digits_value r else digits_value s)"

definition scan_number :: "nat \<Rightarrow> pystr \<Rightarrow> (json \<times> nat) option" where
  "scan_number idx s =
     (case match_integer s of
        None \<Rightarrow> None
      | Some integer \<Rightarrow>
          let frac = match_frac (drop (length integer) s);
              exp = match_exp (drop (length integer + length frac) s);
              m_end = idx + length integer + length frac + length exp
          in if frac \<noteq> [] \<or> exp \<noteq> [] then Some (JFloat (integer @ frac @ exp), m_end)
             else Some (JInt (parse_int integer), m_end))"

text \<open>\<open>dict(pairs)\<close>: a later item with a key already seen replaces its value in place.\<close>

definition dict :: "(pystr \<times> json) list \<Rightarrow> (pystr \<times> json) list" where
  "dict pairs = foldl (\<lambda>d (k, v). AList.update k v d) [] pairs"

lemma length_skipw_le: "length (skipw s) \<le> length s"
  by (simp add: skipw_def length_dropWhile_le)

lemma length_seek_le: "length (seek s i e) \<le> length s"
  by (simp add: seek_def)

lemma skipw_Cons_length: "skipw s = c # r \<Longrightarrow> length r < length s"
  using length_skipw_le [of s] by simp

text \<open>
  \<open>scan_once idx s\<close> is \<open>_scan_once(string, idx)\<close>; the two loops are the \<open>while True\<close>
  loops of \<open>JSONArray\<close> and \<open>JSONObject\<close>, whose prologues (the look-ahead for the empty
  array and the empty object) are in the branches of \<open>scan_once\<close> that call them.
\<close>

function (sequential) scan_once :: "nat \<Rightarrow> pystr \<Rightarrow> scan_exn + (json \<times> nat)"
  and JSONArray_loop :: "json list \<Rightarrow> nat \<Rightarrow> pystr \<Rightarrow> scan_exn + (json \<times> nat)"
  and JSONObject_loop :: "(pystr \<times> json) list \<Rightarrow> nat \<Rightarrow> pystr \<Rightarrow> scan_exn + (json \<times> nat)"
where
  "scan_once idx [] = Inl (StopIteration idx)"
| "scan_once idx (c # cs) =
     (if c = 0x22 then
        (case py_scanstring (idx + 1) cs of
           Inl e \<Rightarrow> Inl e
         | Inr (str, e) \<Rightarrow> Inr (JStr str, e))
      else if c = 0x7B then
        (case skipw cs of
           [] \<Rightarrow> Inl (DecodeError ExpectingPropertyName (w_end (idx + 1) cs))
         | n # s1 \<Rightarrow>
             if n = 0x7D then Inr (JObj [], w_end (idx + 1) cs + 1)
             else if n = 0x22 then JSONObject_loop [] (w_end (idx + 1) cs + 1) s1
             else Inl (DecodeError ExpectingPropertyName (w_end (idx + 1) cs)))
      else if c = 0x5B then
        (case skipw cs of
           [] \<Rightarrow> JSONArray_loop [] (w_end (idx + 1) cs) []
         | n # s1 \<Rightarrow>
             if n = 0x5D then Inr (JArr [], w_end (idx + 1) cs + 1)
             else JSONArray_loop [] (w_end (idx + 1) cs) (skipw cs))
      else if c = 0x6E \<and> take 4 (c # cs) = u ''null'' then Inr (JNull, idx + 4)
      else if c = 0x74 \<and> take 4 (c # cs) = u ''true'' then Inr (JBool True, idx + 4)
      else if c = 0x66 \<and> take 5 (c # cs) = u ''false'' then Inr (JBool False, idx + 5)
      else
        (case scan_number idx (c # cs) of
           Some r \<Rightarrow> Inr r
         | None \<Rightarrow>
             if c = 0x4E \<and> take 3 (c # cs) = u ''NaN'' then Inr (JFloat (u ''NaN''), idx + 3)
             else if c = 0x49 \<and> take 8 (c # cs) = u ''Infinity'' then
               Inr (JFloat (u ''Infinity''), idx + 8)
             else if c = 0x2D \<and> take 9 (c # cs) = u ''-Infinity'' then
               Inr (JFloat (u ''-Infinity''), idx + 9)
             else Inl (StopIteration idx)))"
| "JSONArray_loop values e s =
     (case scan_once e s of
        Inl (StopIteration p) \<Rightarrow> Inl (DecodeError ExpectingValue p)
      | Inl (DecodeError m p) \<Rightarrow> Inl (DecodeError m p)
      | Inr (v, e1) \<Rightarrow>
          (let e2 = w_end e1 (seek s e e1) in
           case skipw (seek s e e1) of
             [] \<Rightarrow> Inl (DecodeError ExpectingCommaDelimiter e2)
           | n # s2 \<Rightarrow>
               if n = 0x5D then Inr (JArr (values @ [v]), e2 + 1)
               else if n \<noteq> 0x2C then Inl (DecodeError ExpectingCommaDelimiter e2)
               else JSONArray_loop (values @ [v]) (w_end (e2 + 1) s2) (skipw s2)))"
| "JSONObject_loop pairs e s =
     (case py_scanstring e s of
        Inl x \<Rightarrow> Inl x
      | Inr (key, e1) \<Rightarrow>
          (let e2 = w_end e1 (seek s e e1) in
           case skipw (seek s e e1) of
             [] \<Rightarrow> Inl (DecodeError ExpectingColonDelimiter e2)
           | n # s3 \<Rightarrow>
               if n \<noteq> 0x3A then Inl (DecodeError ExpectingColonDelimiter e2)
               else
                 (let e3 = w_end (e2 + 1) s3 in
                  case scan_once e3 (skipw s3) of
                    Inl (StopIteration p) \<Rightarrow> Inl (DecodeError ExpectingValue p)
                  | Inl (DecodeError m p) \<Rightarrow> Inl (DecodeError m p)
                  | Inr (v, e4) \<Rightarrow>
                      (let e5 = w_end e4 (seek (skipw s3) e3 e4) in
                       case skipw (seek (skipw s3) e3 e4) of
                         [] \<Rightarrow> Inl (DecodeError ExpectingCommaDelimiter e5)
                       | n' # s7 \<Rightarrow>
                           if n' = 0x7D then Inr (JObj (dict (pairs @ [(key, v)])), e5 + 1)
                           else if n' \<noteq> 0x2C then Inl (DecodeError ExpectingCommaDelimiter e5)
                           else
                             (let e6 = w_end (e5 + 1) s7 in
                              case skipw s7 of
                                [] \<Rightarrow> Inl (DecodeError ExpectingPropertyName e6)
                              | q # s9 \<Rightarrow>
                                  if q = 0x22 then JSONObject_loop (pairs @ [(key, v)]) (e6 + 1) s9
                                  else Inl (DecodeError ExpectingPropertyName e6))))))"
  by pat_completeness auto

termination
  apply (relation "measure (\<lambda>x. case x of
            Inl (idx, s) \<Rightarrow> 2 * length s
          | Inr (Inl (vs, e, s)) \<Rightarrow> 2 * length s + 1
          | Inr (Inr (ps, e, s)) \<Rightarrow> 2 * length s + 1)")
  apply (auto dest!: skipw_Cons_length)
  subgoal for e s a b r
    using length_skipw_le [of r] length_seek_le [of s e b] by linarith
  subgoal for e s a b r
    using length_skipw_le [of r] length_seek_le [of s e b] by linarith
  subgoal for e s a b r v e4 r' r''
    using length_skipw_le [of r] length_seek_le [of s e b]
      length_seek_le [of "skipw r" "w_end (Suc (w_end b (seek s e b))) r" e4]
    by linarith
  done

definition json_loads :: "pystr \<Rightarrow> py_exn + json" where
  "json_loads s =
     (case scan_once (w_end 0 s) (skipw s) of
        Inl (StopIteration p) \<Rightarrow> Inl (JSONDecodeError ExpectingValue s p)
      | Inl (DecodeError m p) \<Rightarrow> Inl (JSONDecodeError m s p)
      | Inr (obj, e) \<Rightarrow>
          (let e' = w_end e (seek (skipw s) (w_end 0 s) e)
           in if e' \<noteq> length s then Inl (JSONDecodeError ExtraData s e') else Inr obj))"

section \<open>\<open>re.findall\<close> for the two patterns of the salvage step\<close>

text \<open>
  \<open>re.findall(pattern, text, re.DOTALL)\<close> returns the non-overlapping matches from left to
  right: at each position the pattern is tried; after a match the search goes on behind
  it, otherwise at the next position.

  The first pattern is \<open>\{[^{}]*\}\<close>: an opening brace, characters other than braces, a
  closing brace.
\<close>

definition no_brace :: "nat \<Rightarrow> bool" where
  "no_brace c \<longleftrightarrow> c \<noteq> 0x7B \<and> c \<noteq> 0x7D"

lemma dropWhile_Cons_length: "dropWhile P s = c # r \<Longrightarrow> length r < length s"
  using length_dropWhile_le [of P s] by simp

function findall_simple :: "pystr \<Rightarrow> pystr list" where
  "findall_simple [] = []"
| "findall_simple (c # cs) =
     (if c = 0x7B then
        (case dropWhile no_brace cs of
           [] \<Rightarrow> findall_simple cs
         | t # rest \<Rightarrow>
             if t = 0x7D then (c # takeWhile no_brace cs @ [t]) # findall_simple rest
             else findall_simple cs)
      else findall_simple cs)"
  by pat_completeness auto

termination findall_simple
  by (relation "measure length") (auto dest: dropWhile_Cons_length)

text \<open>
  The second pattern is \<open>\{.*?\}\<close>: an opening brace, as few characters as possible (any
  character, as \<open>re.DOTALL\<close> is set), a closing brace.
\<close>

function findall_lazy :: "pystr \<Rightarrow> pystr list" where
  "findall_lazy [] = []"
| "findall_lazy (c # cs) =
     (if c = 0x7B then
        (case dropWhile (\<lambda>x. x \<noteq> 0x7D) cs of
           [] \<Rightarrow> findall_lazy cs
         | t # rest \<Rightarrow> (c # takeWhile (\<lambda>x. x \<noteq> 0x7D) cs @ [t]) # findall_lazy rest)
      else findall_lazy cs)"
  by pat_completeness auto

termination findall_lazy
  by (relation "measure length") (auto dest: dropWhile_Cons_length)

section \<open>Operations on text and on decoded values\<close>

fun str_nat :: "nat \<Rightarrow> pystr" where
  "str_nat n = (if n < 10 then [0x30 + n] else str_nat (n div 10) @ [0x30 + n mod 10])"

declare str_nat.simps [simp del]

fun join :: "pystr \<Rightarrow> pystr list \<Rightarrow> pystr" where
  "join sep [] = []"
| "join sep [x] = x"
| "join sep (x # y # ys) = x @ sep @ join sep (y # ys)"

text \<open>\<open>str.strip()\<close> removes the characters for which \<open>str.isspace\<close> holds at both ends.\<close>

definition isspace :: "nat \<Rightarrow> bool" where
  "isspace c \<longleftrightarrow>
     (0x09 \<le> c \<and> c \<le> 0x0D) \<or> (0x1C \<le> c \<and> c \<le> 0x20) \<or> c = 0x85 \<or> c = 0xA0 \<or> c = 0x1680 \<or>
     (0x2000 \<le> c \<and> c \<le> 0x200A) \<or> c = 0x2028 \<or> c = 0x2029 \<or> c = 0x202F \<or> c = 0x205F \<or>
     c = 0x3000"

definition strip :: "pystr \<Rightarrow> pystr" where
  "strip s = rev (dropWhile isspace (rev (dropWhile isspace s)))"

definition jmsg_text :: "jmsg \<Rightarrow> pystr" where
  "jmsg_text m =
     (case m of
        ExpectingValue \<Rightarrow> u ''Expecting value''
      | ExtraData \<Rightarrow> u ''Extra data''
      | UnterminatedString \<Rightarrow> u ''Unterminated string starting at''
      | InvalidControlCharacter \<Rightarrow> u ''Invalid control character at''
      | InvalidEscape \<Rightarrow> u ''Invalid '' @ [0x5C] @ u ''escape''
      | InvalidUXXXXEscape \<Rightarrow> u ''Invalid '' @ [0x5C] @ u ''uXXXX escape''
      | ExpectingPropertyName \<Rightarrow> u ''Expecting property name enclosed in double quotes''
      | ExpectingColonDelimiter \<Rightarrow> u ''Expecting '' @ [0x27, 0x3A, 0x27] @ u '' delimiter''
      | ExpectingCommaDelimiter \<Rightarrow> u ''Expecting '' @ [0x27, 0x2C, 0x27] @ u '' delimiter'')"

text \<open>
  \<open>str(e)\<close>; for a \<open>JSONDecodeError\<close> it is \<open>msg: line l column c (char pos)\<close>, with the line
  and the column of \<open>pos\<close> in the document.
\<close>

definition exn_str :: "py_exn \<Rightarrow> pystr" where
  "exn_str e =
     (case e of
        JSONDecodeError m doc pos \<Rightarrow>
          jmsg_text m @ u '': line ''
            @ str_nat (length (filter (\<lambda>c. c = 0x0A) (take pos doc)) + 1)
            @ u '' column ''
            @ str_nat (length (takeWhile (\<lambda>c. c \<noteq> 0x0A) (rev (take pos doc))) + 1)
            @ u '' (char '' @ str_nat pos @ u '')''
      | TypeError m \<Rightarrow> m
      | AttributeError m \<Rightarrow> m
      | KeyError m \<Rightarrow> m
      | OtherException m \<Rightarrow> m)"

definition type_name :: "json \<Rightarrow> pystr" where
  "type_name x =
     (case x of
        JNull \<Rightarrow> u ''NoneType''
      | JBool _ \<Rightarrow> u ''bool''
      | JInt _ \<Rightarrow> u ''int''
      | JFloat _ \<Rightarrow> u ''float''
      | JStr _ \<Rightarrow> u ''str''
      | JArr _ \<Rightarrow> u ''list''
      | JObj _ \<Rightarrow> u ''dict'')"

definition quoted :: "pystr \<Rightarrow> pystr" where
  "quoted s = [0x27] @ s @ [0x27]"

fun startswith :: "pystr \<Rightarrow> pystr \<Rightarrow> bool" where
  "startswith s [] = True"
| "startswith [] (p # ps) = False"
| "startswith (c # cs) (p # ps) = (c = p \<and> startswith cs ps)"

fun str_contains :: "pystr \<Rightarrow> pystr \<Rightarrow> bool" where
  "str_contains sub [] = (sub = [])"
| "str_contains sub (c # cs) = (startswith (c # cs) sub \<or> str_contains sub cs)"

text \<open>
  \<open>key in x\<close> for a text \<open>key\<close>: the keys of a dict, the elements of a list, the substrings
  of a text; the other values are no containers.
\<close>

definition py_contains :: "pystr \<Rightarrow> json \<Rightarrow> py_exn + bool" where
  "py_contains k x =
     (case x of
        JObj kvs \<Rightarrow> Inr (k \<in> set (map fst kvs))
      | JArr xs \<Rightarrow> Inr (JStr k \<in> set xs)
      | JStr s \<Rightarrow> Inr (str_contains k s)
      | _ \<Rightarrow> Inl (TypeError (u ''argument of type '' @ quoted (type_name x) @ u '' is not iterable'')))"

text \<open>\<open>x[key]\<close> for a text \<open>key\<close>: only a dict is indexed by a text.\<close>

definition py_getitem :: "json \<Rightarrow> pystr \<Rightarrow> py_exn + json" where
  "py_getitem x k =
     (case x of
        JObj kvs \<Rightarrow> (case map_of kvs k of Some v \<Rightarrow> Inr v | None \<Rightarrow> Inl (KeyError (quoted k)))
      | JArr _ \<Rightarrow> Inl (TypeError (u ''list indices must be integers or slices, not str''))
      | JStr _ \<Rightarrow> Inl (TypeError (u ''string indices must be integers''))
      | _ \<Rightarrow> Inl (TypeError (quoted (type_name x) @ u '' object is not subscriptable'')))"

definition py_len :: "json \<Rightarrow> py_exn + nat" where
  "py_len x =
     (case x of
        JObj kvs \<Rightarrow> Inr (length kvs)
      | JArr xs \<Rightarrow> Inr (length xs)
      | JStr s \<Rightarrow> Inr (length s)
      | _ \<Rightarrow> Inl (TypeError (u ''object of type '' @ quoted (type_name x) @ u '' has no len()'')))"

text \<open>
  The truth value of a decoded value.  A float is zero when its literal has no digit other
  than \<open>0\<close> before the exponent (a literal whose value underflows to zero is not told apart).
\<close>

definition float_is_zero :: "pystr \<Rightarrow> bool" where
  "float_is_zero lit \<longleftrightarrow>
     (\<forall>c \<in> set (takeWhile (\<lambda>c. c \<noteq> 0x65 \<and> c \<noteq> 0x45) lit). c = 0x30 \<or> c = 0x2E \<or> c = 0x2D)"

definition py_bool :: "json \<Rightarrow> bool" where
  "py_bool x =
     (case x of
        JNull \<Rightarrow> False
      | JBool b \<Rightarrow> b
      | JInt i \<Rightarrow> i \<noteq> 0
      | JFloat lit \<Rightarrow> \<not> float_is_zero lit
      | JStr s \<Rightarrow> s \<noteq> []
      | JArr xs \<Rightarrow> xs \<noteq> []
      | JObj kvs \<Rightarrow> kvs \<noteq> [])"

text \<open>Sequencing of computations that may raise.\<close>

definition bind :: "py_exn + 'a \<Rightarrow> ('a \<Rightarrow> py_exn + 'b) \<Rightarrow> py_exn + 'b" where
  "bind m f = (case m of Inl e \<Rightarrow> Inl e | Inr x \<Rightarrow> f x)"

section \<open>The dataset\<close>

text \<open>
  A \<open>pandas.DataFrame\<close> with the default index \<open>0, \<dots>, n - 1\<close> (the loader of the
  repository resets the index, its sample data has the default one): its columns in
  order, each with its label, the name of its dtype and its values, and the number of
  rows.  The scalar values are of an arbitrary type \<open>'v\<close>; \<open>None\<close> is a missing value.
  Every column has as many values as the frame has rows.
\<close>

record 'v column =
  col_name :: pystr
  col_dtype :: pystr
  col_values :: "'v option list"

record 'v dataframe =
  df_columns :: "'v column list"
  df_len :: nat

definition columns :: "'v dataframe \<Rightarrow> pystr list" where
  "columns df = map col_name (df_columns df)"

text \<open>
  \<open>df[col]\<close> selects the columns labelled \<open>col\<close>.  It is a \<open>Series\<close> when there is one; when
  several columns have the label it is a \<open>DataFrame\<close>, which has no attribute \<open>dtype\<close>, so
  that \<open>df[col].dtype\<close> raises \<open>AttributeError\<close> (for the label \<open>dtype\<close> itself the attribute
  is the selection again, and taking its truth value raises \<open>ValueError\<close>).  The function
  gives the series that \<open>df[col].dtype\<close>, \<open>df[col].nunique()\<close>, \<dots> are about.
\<close>

definition df_series :: "'v dataframe \<Rightarrow> pystr \<Rightarrow> py_exn + 'v column" where
  "df_series df col =
     (case filter (\<lambda>c. col_name c = col) (df_columns df) of
        [] \<Rightarrow> Inl (KeyError (quoted col))
      | [s] \<Rightarrow> Inr s
      | _ \<Rightarrow>
          if col = u ''dtype'' then
            Inl (OtherException (u ''The truth value of a DataFrame is ambiguous. Use a.empty, a.bool(), a.item(), a.any() or a.all().''))
          else
            Inl (AttributeError (quoted (u ''DataFrame'') @ u '' object has no attribute '' @ quoted (u ''dtype''))))"

definition series_count :: "'v column \<Rightarrow> nat" where
  "series_count s = length (filter (\<lambda>v. v \<noteq> None) (col_values s))"

definition series_null_count :: "'v column \<Rightarrow> nat" where
  "series_null_count s = length (filter (\<lambda>v. v = None) (col_values s))"

definition nunique :: "'v column \<Rightarrow> nat" where
  "nunique s = length (remdups (filter (\<lambda>v. v \<noteq> None) (col_values s)))"

definition row_at :: "'v dataframe \<Rightarrow> nat \<Rightarrow> 'v option list" where
  "row_at df i =
     map (\<lambda>c. if i < length (col_values c) then col_values c ! i else None) (df_columns df)"

text \<open>\<open>df.iterrows()\<close>: the rows with their index labels.\<close>

definition iterrows :: "'v dataframe \<Rightarrow> (nat \<times> 'v option list) list" where
  "iterrows df = map (\<lambda>i. (i, row_at df i)) [0..<df_len df]"

text \<open>
  What \<open>pandas\<close> and \<open>numpy\<close> print is not computed here but taken from the environment:
  \<open>cell_str row v\<close> is \<open>str(row[col])\<close> for the value \<open>v\<close> in the row \<open>row\<close>; \<open>describe s\<close> is
  the outcome of \<open>df[col].describe()\<close> with \<open>mean\<close>, \<open>max\<close>, \<open>min\<close> and \<open>std\<close> as the format
  string of the source prints them; \<open>value_counts s\<close> is the outcome of
  \<open>df[col].value_counts().head(10)\<close>, the values as \<open>str\<close> prints them.
\<close>

record 'v pandas =
  cell_str :: "'v option list \<Rightarrow> 'v option \<Rightarrow> pystr"
  describe :: "'v column \<Rightarrow> py_exn + (pystr \<times> pystr \<times> pystr \<times> pystr)"
  value_counts :: "'v column \<Rightarrow> py_exn + (pystr \<times> nat) list"

section \<open>The summarizer: \<open>_generate_complete_data_info\<close>\<close>

text \<open>The lines that the loop over \<open>df.columns\<close> appends for one column.\<close>

definition column_info :: "'v pandas \<Rightarrow> 'v column \<Rightarrow> pystr list" where
  "column_info pd s =
     [[0x5217, 0x540D, 0xFF1A] @ col_name s,
      [0x20, 0x20, 0x6570, 0x636E, 0x7C7B, 0x578B, 0xFF1A] @ col_dtype s,
      [0x20, 0x20, 0x975E, 0x7A7A, 0x503C, 0xFF1A] @ str_nat (series_count s) @ [0x4E2A],
      [0x20, 0x20, 0x7A7A, 0x503C, 0xFF1A] @ str_nat (series_null_count s) @ [0x4E2A],
      [0x20, 0x20, 0x552F, 0x4E00, 0x503C, 0xFF1A] @ str_nat (nunique s) @ [0x4E2A]]
     @ (if col_dtype s \<in> set [u ''int64'', u ''float64'', u ''int32'', u ''float32''] then
          (case describe pd s of
             Inl _ \<Rightarrow> []
           | Inr (mean, mx, mn, std) \<Rightarrow>
               [[0x20, 0x20, 0x7EDF, 0x8BA1, 0x4FE1, 0x606F, 0xFF1A, 0x5747, 0x503C, 0x3D] @ mean
                @ [0x2C, 0x20, 0x6700, 0x5927, 0x503C, 0x3D] @ mx
                @ [0x2C, 0x20, 0x6700, 0x5C0F, 0x503C, 0x3D] @ mn
                @ [0x2C, 0x20, 0x6807, 0x51C6, 0x5DEE, 0x3D] @ std])
        else if col_dtype s = u ''object'' \<or> col_dtype s = u ''category'' then
          (case value_counts pd s of
             Inl _ \<Rightarrow> []
           | Inr top_values \<Rightarrow>
               [0x20, 0x20, 0x503C, 0x5206, 0x5E03, 0xFF08, 0x524D, 0x31, 0x30, 0x4E2A, 0xFF09, 0xFF1A]
               # map (\<lambda>(v, n). u ''    '' @ v @ u '': '' @ str_nat n @ [0x6B21]) top_values)
        else [])
     @ [[]]"

fun columns_info :: "'v pandas \<Rightarrow> 'v dataframe \<Rightarrow> pystr list \<Rightarrow> py_exn + pystr list" where
  "columns_info pd df [] = Inr []"
| "columns_info pd df (col # cols) =
     bind (df_series df col) (\<lambda>s.
     bind (columns_info pd df cols) (\<lambda>rest.
     Inr (column_info pd s @ rest)))"

text \<open>
  The line of one row: the label \<open>idx + 1\<close> between U+7B2C and U+884C U+FF1A, then
  \<open>col=value\<close> for every column, joined by a comma and a space.  (The loop over the columns
  has ended before, so the labels of the columns are distinct here and \<open>row[col]\<close> is the
  value of the row in that column.)
\<close>

definition row_line :: "'v pandas \<Rightarrow> 'v dataframe \<Rightarrow> nat \<times> 'v option list \<Rightarrow> pystr" where
  "row_line pd df ir =
     [0x7B2C] @ str_nat (fst ir + 1) @ [0x884C, 0xFF1A]
     @ join (u '', '')
         (map (\<lambda>(c, v). col_name c @ [0x3D] @ cell_str pd (snd ir) v) (zip (df_columns df) (snd ir)))"

text \<open>\<open>df.head(10)\<close>, \<open>df.iloc[a:b]\<close> for \<open>0 \<le> a \<le> b\<close> and \<open>df.tail(10)\<close>, on the rows.\<close>

definition head10 :: "'a list \<Rightarrow> 'a list" where
  "head10 xs = take 10 xs"

definition iloc :: "nat \<Rightarrow> nat \<Rightarrow> 'a list \<Rightarrow> 'a list" where
  "iloc a b xs = take (b - a) (drop a xs)"

definition tail10 :: "'a list \<Rightarrow> 'a list" where
  "tail10 xs = drop (length xs - 10) xs"

text \<open>The block of the basic information and the title of the block of the columns.\<close>

definition basic_info :: "'v dataframe \<Rightarrow> pystr list" where
  "basic_info df =
     [[0x6570, 0x636E, 0x96C6, 0x57FA, 0x672C, 0x4FE1, 0x606F, 0xFF1A],
      [0x603B, 0x884C, 0x6570, 0xFF1A] @ str_nat (df_len df),
      [0x603B, 0x5217, 0x6570, 0xFF1A] @ str_nat (length (df_columns df)),
      [],
      [0x5217, 0x4FE1, 0x606F, 0x548C, 0x8BE6, 0x7EC6, 0x7EDF, 0x8BA1, 0xFF1A]]"

text \<open>
  The titles of the last block: that of the complete data, that of the samples, and
  those of the first ten rows, of the middle part (with \<open>mid_start + 1\<close> and \<open>mid_end\<close>) and
  of the last ten rows.
\<close>

definition title_all_rows :: pystr where
  "title_all_rows = [0x5B8C, 0x6574, 0x6570, 0x636E, 0x96C6, 0xFF1A]"

definition title_samples :: pystr where
  "title_samples =
     [0x6570, 0x636E, 0x6837, 0x672C, 0xFF08, 0x5305, 0x542B, 0x524D, 0x31, 0x30, 0x884C, 0x3001,
      0x4E2D, 0x95F4, 0x31, 0x30, 0x884C, 0x3001, 0x540E, 0x31, 0x30, 0x884C, 0xFF09, 0xFF1A]"

definition title_head :: pystr where
  "title_head = [0x524D, 0x31, 0x30, 0x884C, 0xFF1A]"

definition title_middle :: "nat \<Rightarrow> nat \<Rightarrow> pystr" where
  "title_middle mid_start mid_end =
     [0x4E2D, 0x95F4, 0x90E8, 0x5206, 0xFF08, 0x7B2C] @ str_nat (mid_start + 1) @ [0x2D]
     @ str_nat mid_end @ [0x884C, 0xFF09, 0xFF1A]"

definition title_tail :: pystr where
  "title_tail = [0x6700, 0x540E, 0x31, 0x30, 0x884C, 0xFF1A]"

text \<open>
  The last block: every row when there are at most 100, three samples otherwise.  In
  the second case \<open>len(df) // 2 - 5\<close> is not negative.
\<close>

definition rows_info :: "'v pandas \<Rightarrow> 'v dataframe \<Rightarrow> pystr list" where
  "rows_info pd df =
     (if df_len df \<le> 100 then title_all_rows # map (row_line pd df) (iterrows df)
      else
        (let mid_start = df_len df div 2 - 5;
             mid_end = df_len df div 2 + 5
         in [title_samples, title_head]
            @ map (row_line pd df) (head10 (iterrows df))
            @ [title_middle mid_start mid_end]
            @ map (row_line pd df) (iloc mid_start mid_end (iterrows df))
            @ [title_tail]
            @ map (row_line pd df) (tail10 (iterrows df))))"

text \<open>
  \<open>info_parts\<close> is the list of that name when the \<open>try\<close> block is left: the basic
  information, the lines of the columns, the rows.
\<close>

definition info_parts :: "'v pandas \<Rightarrow> 'v dataframe \<Rightarrow> py_exn + pystr list" where
  "info_parts pd df =
     bind (columns_info pd df (columns df)) (\<lambda>cols.
     Inr (basic_info df @ cols @ rows_info pd df))"

definition generate_complete_data_info :: "'v pandas \<Rightarrow> 'v dataframe \<Rightarrow> pystr" where
  "generate_complete_data_info pd df =
     (case info_parts pd df of
        Inr parts \<Rightarrow> join [0x0A] parts
      | Inl e \<Rightarrow> [0x751F, 0x6210, 0x6570, 0x636E, 0x4FE1, 0x606F, 0x65F6, 0x51FA, 0x9519, 0xFF1A] @ exn_str e)"

section \<open>The consistency check: \<open>_validate_data_consistency\<close>\<close>

text \<open>
  \<open>max([df[col].nunique() for col in df.columns if df[col].dtype == 'object'],
  default=len(df))\<close>: the list comprehension, then the maximum with its default.
\<close>

fun object_nuniques :: "'v dataframe \<Rightarrow> pystr list \<Rightarrow> py_exn + nat list" where
  "object_nuniques df [] = Inr []"
| "object_nuniques df (col # cols) =
     bind (df_series df col) (\<lambda>s.
     bind (object_nuniques df cols) (\<lambda>rest.
     Inr (if col_dtype s = u ''object'' then nunique s # rest else rest)))"

definition max_default :: "nat list \<Rightarrow> nat \<Rightarrow> nat" where
  "max_default xs d = (case xs of [] \<Rightarrow> d | x # r \<Rightarrow> foldl max x r)"

definition max_unique_values :: "'v dataframe \<Rightarrow> py_exn + nat" where
  "max_unique_values df =
     bind (object_nuniques df (columns df)) (\<lambda>ns. Inr (max_default ns (df_len df)))"

text \<open>The body of the \<open>try\<close> block: the result it returns, or the exception it raises.\<close>

definition validate_try :: "json \<Rightarrow> 'v dataframe \<Rightarrow> py_exn + bool" where
  "validate_try ai_result df =
     bind (py_contains (u ''table'') ai_result) (\<lambda>has_table.
     if has_table then
       bind (py_getitem ai_result (u ''table'')) (\<lambda>table_data.
       bind (py_contains (u ''data'') table_data) (\<lambda>has_data.
       if has_data then
         bind (py_getitem table_data (u ''data'')) (\<lambda>data.
         bind (py_len data) (\<lambda>n.
         if n > df_len df * 2 then Inr False else Inr True))
       else Inr True))
     else
       bind (py_contains (u ''bar'') ai_result) (\<lambda>has_bar.
       bind (if has_bar then Inr True else py_contains (u ''line'') ai_result) (\<lambda>has_chart.
       if has_chart then
         (let chart_key = (if has_bar then u ''bar'' else u ''line'') in
          bind (py_getitem ai_result chart_key) (\<lambda>chart_data.
          bind (py_contains (u ''data'') chart_data) (\<lambda>has_data.
          bind (if has_data then py_contains (u ''columns'') chart_data else Inr False) (\<lambda>has_both.
          if has_both then
            bind (py_getitem chart_data (u ''data'')) (\<lambda>data.
            bind (py_len data) (\<lambda>n.
            bind (py_getitem chart_data (u ''columns'')) (\<lambda>cols.
            bind (py_len cols) (\<lambda>m.
            if n \<noteq> m then Inr False
            else
              bind (max_unique_values df) (\<lambda>max_unique.
              if n > max_unique * 2 then Inr False else Inr True)))))
          else Inr True))))
       else Inr True)))"

text \<open>\<open>except Exception: return True\<close>.\<close>

definition validate_data_consistency :: "json \<Rightarrow> 'v dataframe \<Rightarrow> bool" where
  "validate_data_consistency ai_result df =
     (case validate_try ai_result df of Inr b \<Rightarrow> b | Inl _ \<Rightarrow> True)"

section \<open>The salvage step: \<open>_extract_json_from_text\<close>\<close>

text \<open>
  The decoder is an argument of the functions that call \<open>json.loads\<close>, so that what is
  proved of them for every decoder holds whatever \<open>json.loads\<close> does (it may raise
  exceptions other than \<open>JSONDecodeError\<close>: \<open>RecursionError\<close> on deep nesting, \<open>ValueError\<close> on an
  overlong integer literal); \<open>json_loads\<close> is the argument for definite texts.

  The inner loop: the first match that the decoder accepts is returned; a
  \<open>JSONDecodeError\<close> goes on to the next match, another exception leaves the function.
\<close>

fun try_matches :: "(pystr \<Rightarrow> py_exn + json) \<Rightarrow> pystr list \<Rightarrow> py_exn + json option" where
  "try_matches loads [] = Inr None"
| "try_matches loads (m # ms) =
     (case loads m of
        Inr v \<Rightarrow> Inr (Some v)
      | Inl (JSONDecodeError _ _ _) \<Rightarrow> try_matches loads ms
      | Inl e \<Rightarrow> Inl e)"

definition extract_json_from_text :: "(pystr \<Rightarrow> py_exn + json) \<Rightarrow> pystr \<Rightarrow> py_exn + json option" where
  "extract_json_from_text loads text =
     (case try_matches loads (findall_simple text) of
        Inl e \<Rightarrow> Inl e
      | Inr (Some v) \<Rightarrow> Inr (Some v)
      | Inr None \<Rightarrow> try_matches loads (findall_lazy text))"

section \<open>The orchestrator: \<open>process_query\<close>\<close>

text \<open>
  The agent holds the model and the system prompt.  \<open>model_invoke prompt\<close> is the content
  of the reply of \<open>self.model.invoke(prompt)\<close>, or the exception it raises.
\<close>

record agent =
  model_invoke :: "pystr \<Rightarrow> py_exn + pystr"
  system_prompt :: pystr

text \<open>
  The result: \<open>Success data raw_response\<close> is the dict with \<open>success = True\<close>,
  \<open>Failure error raw_response\<close> the one with \<open>success = False\<close>.
\<close>

datatype query_result =
    Success json pystr
  | Failure pystr pystr

text \<open>
  The three error texts: that of an inconsistent reply (line 101), the prefix of a reply
  that is not parsed or inconsistent (line 112) and the prefix of a processing error
  (line 119).
\<close>

definition msg_inconsistent :: pystr where
  "msg_inconsistent =
     [0x41, 0x49, 0x8FD4, 0x56DE, 0x7684, 0x6570, 0x636E, 0x4E0E, 0x5B9E, 0x9645, 0x6570, 0x636E,
      0x4E0D, 0x4E00, 0x81F4]"

definition msg_parse_failed :: pystr where
  "msg_parse_failed =
     [0x4A, 0x53, 0x4F, 0x4E, 0x89E3, 0x6790, 0x5931, 0x8D25, 0x6216, 0x6570, 0x636E, 0x4E0D,
      0x4E00, 0x81F4, 0x3A, 0x20]"

definition msg_processing :: pystr where
  "msg_processing = [0x41, 0x49, 0x5904, 0x7406, 0x9519, 0x8BEF, 0x3A, 0x20]"

definition full_prompt :: "agent \<Rightarrow> pystr \<Rightarrow> pystr \<Rightarrow> pystr" where
  "full_prompt self data_info user_question =
     [0x0A] @ system_prompt self
     @ [0x0A, 0x0A, 0x5B8C, 0x6574, 0x6570, 0x636E, 0x96C6, 0x4FE1, 0x606F, 0xFF1A, 0x0A]
     @ data_info
     @ [0x0A, 0x0A, 0x7528, 0x6237, 0x95EE, 0x9898, 0xFF1A] @ user_question
     @ [0x0A, 0x0A, 0x8BF7, 0x57FA, 0x4E8E, 0x4E0A, 0x8FF0, 0x771F, 0x5B9E, 0x6570, 0x636E, 0x56DE,
        0x7B54, 0x95EE, 0x9898, 0xFF0C, 0x786E, 0x4FDD, 0x6240, 0x6709, 0x6570, 0x503C, 0x90FD,
        0x6765, 0x81EA, 0x5B9E, 0x9645, 0x8BA1, 0x7B97, 0x3002, 0x4E25, 0x683C, 0x6309, 0x7167,
        0x4A, 0x53, 0x4F, 0x4E, 0x683C, 0x5F0F, 0x8F93, 0x51FA, 0x3002, 0x0A]"

text \<open>
  The body of the outer \<open>try\<close> block: the result it returns, or the exception that leaves
  it.  The inner \<open>try\<close> handles the \<open>JSONDecodeError\<close> of the direct parse only.
\<close>

definition process_query_try ::
  "(pystr \<Rightarrow> py_exn + json) \<Rightarrow> 'v pandas \<Rightarrow> agent \<Rightarrow> pystr \<Rightarrow> 'v dataframe \<Rightarrow> py_exn + query_result"
where
  "process_query_try loads pd self user_question df =
     (let data_info = generate_complete_data_info pd df in
      bind (model_invoke self (full_prompt self data_info user_question)) (\<lambda>content.
      let response_text = strip content in
      case loads response_text of
        Inr result \<Rightarrow>
          if validate_data_consistency result df then Inr (Success result response_text)
          else Inr (Failure msg_inconsistent response_text)
      | Inl (JSONDecodeError m doc pos) \<Rightarrow>
          bind (extract_json_from_text loads response_text) (\<lambda>result.
          case result of
            None \<Rightarrow> Inr (Failure (msg_parse_failed @ exn_str (JSONDecodeError m doc pos)) response_text)
          | Some r \<Rightarrow>
              if py_bool r \<and> validate_data_consistency r df then Inr (Success r response_text)
              else Inr (Failure (msg_parse_failed @ exn_str (JSONDecodeError m doc pos)) response_text))
      | Inl e \<Rightarrow> Inl e))"

text \<open>\<open>except Exception as e\<close>: the processing error, with no raw reply.\<close>

definition process_query ::
  "(pystr \<Rightarrow> py_exn + json) \<Rightarrow> 'v pandas \<Rightarrow> agent \<Rightarrow> pystr \<Rightarrow> 'v dataframe \<Rightarrow> query_result"
where
  "process_query loads pd self user_question df =
     (case process_query_try loads pd self user_question df of
        Inr r \<Rightarrow> r
      | Inl e \<Rightarrow> Failure (msg_processing @ exn_str e) [])"

section \<open>The renderer: \<open>DataVisualizer\<close>\<close>

text \<open>
  The renderer acts on the page only; a run of it is the list of the calls it makes:
  the notices of \<open>streamlit\<close> (\<open>st.warning\<close>, \<open>st.error\<close>, \<open>st.info\<close>), the figure given to
  \<open>st.plotly_chart\<close> with the data of its trace, the frame given to \<open>st.dataframe\<close>, the
  download button, and the calls made inside \<open>with st.expander(title)\<close>.  The calls of
  \<open>streamlit\<close> do not raise.
\<close>

datatype figure =
    Bar json json
  | Line json json
  | Pie json json
  | Scatter json json json

datatype frame = Frame "(pystr \<times> json) list"

datatype ui =
    Warning pystr
  | Error pystr
  | Info pystr
  | Subheader pystr
  | PlotlyChart figure
  | Dataframe frame
  | DownloadButton pystr pystr pystr pystr
  | Expander pystr "ui list"
  | Json json

text \<open>
  What \<open>pandas\<close>, \<open>plotly\<close> and the formatting of Python do with the values of a reply is
  taken from the environment, except where the values are lists: a figure whose data are
  lists is built, and so is a frame from a dict of lists of one length.
  \<open>py_repr x\<close> is \<open>str(x)\<close> for a value that is no text; \<open>table_frame data columns\<close> is
  \<open>pd.DataFrame(data, columns=columns)\<close>; \<open>csv_bytes\<close> is \<open>to_csv\<close> and its encoding;
  \<open>pie_percent values\<close> is the list of the shares of the values, formatted.
\<close>

record display =
  py_repr :: "json \<Rightarrow> pystr"
  table_frame :: "json \<Rightarrow> json \<Rightarrow> py_exn + frame"
  irregular_frame :: "(pystr \<times> json) list \<Rightarrow> py_exn + frame"
  csv_bytes :: "frame \<Rightarrow> pystr"
  pie_percent :: "json \<Rightarrow> py_exn + json"
  irregular_figure :: "figure \<Rightarrow> py_exn option"

definition is_list :: "json \<Rightarrow> bool" where
  "is_list x = (case x of JArr _ \<Rightarrow> True | _ \<Rightarrow> False)"

definition uniform_lists :: "(pystr \<times> json) list \<Rightarrow> bool" where
  "uniform_lists d \<longleftrightarrow>
     list_all (\<lambda>kv. is_list (snd kv)) d \<and>
     (case d of [] \<Rightarrow> True | kv # r \<Rightarrow> list_all (\<lambda>kv'. py_len (snd kv') = py_len (snd kv)) r)"

definition pd_DataFrame :: "display \<Rightarrow> (pystr \<times> json) list \<Rightarrow> py_exn + frame" where
  "pd_DataFrame env d = (if uniform_lists d then Inr (Frame d) else irregular_frame env d)"

definition figure_lists :: "figure \<Rightarrow> bool" where
  "figure_lists fig =
     (case fig of
        Bar x y \<Rightarrow> is_list x \<and> is_list y
      | Line x y \<Rightarrow> is_list x \<and> is_list y
      | Pie l v \<Rightarrow> is_list l \<and> is_list v
      | Scatter x y t \<Rightarrow> is_list x \<and> is_list y \<and> is_list t)"

definition go_Figure :: "display \<Rightarrow> figure \<Rightarrow> py_exn option" where
  "go_Figure env fig = (if figure_lists fig then None else irregular_figure env fig)"

definition py_str :: "display \<Rightarrow> json \<Rightarrow> pystr" where
  "py_str env x = (case x of JStr s \<Rightarrow> s | _ \<Rightarrow> py_repr env x)"

text \<open>\<open>x.get(key, default)\<close>: only a dict has the method.\<close>

definition py_get :: "json \<Rightarrow> pystr \<Rightarrow> json \<Rightarrow> py_exn + json" where
  "py_get x k d =
     (case x of
        JObj kvs \<Rightarrow> Inr (case map_of kvs k of Some v \<Rightarrow> v | None \<Rightarrow> d)
      | _ \<Rightarrow>
          Inl (AttributeError
                (quoted (type_name x) @ u '' object has no attribute '' @ quoted (u ''get''))))"

text \<open>
  The body of the \<open>try\<close> block of a renderer gives the calls made and the exception that
  ended it, if any; \<open>caught prefix\<close> is its \<open>except Exception as e: st.error(prefix + str(e))\<close>.
\<close>

definition caught :: "pystr \<Rightarrow> ui list \<times> py_exn option \<Rightarrow> ui list" where
  "caught prefix run =
     (case snd run of None \<Rightarrow> fst run | Some e \<Rightarrow> fst run @ [Error (prefix @ exn_str e)])"

definition raised :: "py_exn \<Rightarrow> ui list \<times> py_exn option" where
  "raised e = ([], Some e)"

definition msg_chart_empty :: pystr where
  "msg_chart_empty = [0x56FE, 0x8868, 0x6570, 0x636E, 0x4E3A, 0x7A7A]"

definition title_details :: pystr where
  "title_details = [0x6570, 0x636E, 0x8BE6, 0x60C5]"

definition render_text_answer :: "display \<Rightarrow> json \<Rightarrow> ui list" where
  "render_text_answer env answer = [Info ([0x5206, 0x6790, 0x7ED3, 0x679C, 0x3A, 0x20] @ py_str env answer)]"

definition render_table_try :: "display \<Rightarrow> json \<Rightarrow> ui list \<times> py_exn option" where
  "render_table_try env table_data =
     (case bind (py_get table_data (u ''columns'') (JArr [])) (\<lambda>cols.
           bind (py_get table_data (u ''data'') (JArr [])) (\<lambda>data. Inr (cols, data))) of
        Inl e \<Rightarrow> raised e
      | Inr (cols, data) \<Rightarrow>
          if \<not> py_bool cols \<or> \<not> py_bool data then
            ([Warning [0x8868, 0x683C, 0x6570, 0x636E, 0x4E3A, 0x7A7A]], None)
          else
            (case table_frame env data cols of
               Inl e \<Rightarrow> raised e
             | Inr df \<Rightarrow>
                 ([Subheader [0x8868, 0x683C, 0x6570, 0x636E],
                   Dataframe df,
                   DownloadButton [0x4E0B, 0x8F7D, 0x8868, 0x683C, 0x6570, 0x636E] (csv_bytes env df)
                     (u ''table_data.csv'') (u ''text/csv'')], None)))"

definition render_table :: "display \<Rightarrow> json \<Rightarrow> ui list" where
  "render_table env table_data =
     caught [0x8868, 0x683C, 0x6E32, 0x67D3, 0x9519, 0x8BEF, 0xFF1A] (render_table_try env table_data)"

text \<open>
  The chart, then the expander with the frame of the details; an exception of the frame
  leaves the chart and the opened expander on the page.
\<close>

definition chart_and_details ::
  "display \<Rightarrow> figure \<Rightarrow> (py_exn + (pystr \<times> json) list) \<Rightarrow> ui list \<times> py_exn option"
where
  "chart_and_details env fig summary =
     (case go_Figure env fig of
        Some e \<Rightarrow> raised e
      | None \<Rightarrow>
          (case bind summary (pd_DataFrame env) of
             Inl e \<Rightarrow> ([PlotlyChart fig, Expander title_details []], Some e)
           | Inr df \<Rightarrow> ([PlotlyChart fig, Expander title_details [Dataframe df]], None)))"

text \<open>
  \<open>_render_bar_chart\<close> and \<open>_render_line_chart\<close> differ in the trace, in the titles and in
  the text of the error only.
\<close>

definition render_columns_chart_try ::
  "display \<Rightarrow> (json \<Rightarrow> json \<Rightarrow> figure) \<Rightarrow> pystr \<Rightarrow> json \<Rightarrow> ui list \<times> py_exn option"
where
  "render_columns_chart_try env trace x_title chart_data =
     (case bind (py_get chart_data (u ''columns'') (JArr [])) (\<lambda>cols.
           bind (py_get chart_data (u ''data'') (JArr [])) (\<lambda>data. Inr (cols, data))) of
        Inl e \<Rightarrow> raised e
      | Inr (cols, data) \<Rightarrow>
          if \<not> py_bool cols \<or> \<not> py_bool data then ([Warning msg_chart_empty], None)
          else
            (case bind (py_len cols) (\<lambda>n. bind (py_len data) (\<lambda>m. Inr (n \<noteq> m))) of
               Inl e \<Rightarrow> raised e
             | Inr mismatch \<Rightarrow>
                 if mismatch then
                   ([Error [0x5217, 0x540D, 0x548C, 0x6570, 0x636E, 0x957F, 0x5EA6, 0x4E0D, 0x5339,
                            0x914D]], None)
                 else
                   chart_and_details env (trace cols data)
                     (Inr [(x_title, cols), ([0x6570, 0x503C], data)])))"

definition render_bar_chart :: "display \<Rightarrow> json \<Rightarrow> ui list" where
  "render_bar_chart env chart_data =
     caught [0x67F1, 0x72B6, 0x56FE, 0x6E32, 0x67D3, 0x9519, 0x8BEF, 0xFF1A]
       (render_columns_chart_try env Bar [0x7C7B, 0x522B] chart_data)"

definition render_line_chart :: "display \<Rightarrow> json \<Rightarrow> ui list" where
  "render_line_chart env chart_data =
     caught [0x6298, 0x7EBF, 0x56FE, 0x6E32, 0x67D3, 0x9519, 0x8BEF, 0xFF1A]
       (render_columns_chart_try env Line [0x65F6, 0x95F4, 0x2F, 0x7C7B, 0x522B] chart_data)"

definition render_pie_chart_try :: "display \<Rightarrow> json \<Rightarrow> ui list \<times> py_exn option" where
  "render_pie_chart_try env chart_data =
     (case bind (py_get chart_data (u ''labels'') (JArr [])) (\<lambda>labels.
           bind (py_get chart_data (u ''values'') (JArr [])) (\<lambda>vals. Inr (labels, vals))) of
        Inl e \<Rightarrow> raised e
      | Inr (labels, vals) \<Rightarrow>
          if \<not> py_bool labels \<or> \<not> py_bool vals then ([Warning msg_chart_empty], None)
          else
            (case bind (py_len labels) (\<lambda>n. bind (py_len vals) (\<lambda>m. Inr (n \<noteq> m))) of
               Inl e \<Rightarrow> raised e
             | Inr mismatch \<Rightarrow>
                 if mismatch then
                   ([Error [0x6807, 0x7B7E, 0x548C, 0x6570, 0x503C, 0x957F, 0x5EA6, 0x4E0D, 0x5339,
                            0x914D]], None)
                 else
                   chart_and_details env (Pie labels vals)
                     (bind (pie_percent env vals) (\<lambda>shares.
                        Inr [([0x7C7B, 0x522B], labels), ([0x6570, 0x503C], vals),
                             ([0x5360, 0x6BD4], shares)]))))"

definition render_pie_chart :: "display \<Rightarrow> json \<Rightarrow> ui list" where
  "render_pie_chart env chart_data =
     caught [0x997C, 0x56FE, 0x6E32, 0x67D3, 0x9519, 0x8BEF, 0xFF1A] (render_pie_chart_try env chart_data)"

text \<open>The labels \<open>[f"\<dots>{i+1}" for i in range(n)]\<close>: U+70B9 (point) and the number.\<close>

definition point_labels :: "nat \<Rightarrow> json" where
  "point_labels n = JArr (map (\<lambda>i. JStr ([0x70B9] @ str_nat (i + 1))) [0..<n])"

definition render_scatter_chart_try :: "display \<Rightarrow> json \<Rightarrow> ui list \<times> py_exn option" where
  "render_scatter_chart_try env chart_data =
     (case bind (py_get chart_data (u ''x'') (JArr [])) (\<lambda>x_data.
           bind (py_get chart_data (u ''y'') (JArr [])) (\<lambda>y_data.
           bind (py_get chart_data (u ''labels'') (JArr [])) (\<lambda>labels. Inr (x_data, y_data, labels)))) of
        Inl e \<Rightarrow> raised e
      | Inr (x_data, y_data, labels) \<Rightarrow>
          if \<not> py_bool x_data \<or> \<not> py_bool y_data then ([Warning msg_chart_empty], None)
          else
            (case bind (py_len x_data) (\<lambda>n. bind (py_len y_data) (\<lambda>m. Inr (n, m))) of
               Inl e \<Rightarrow> raised e
             | Inr (n, m) \<Rightarrow>
                 if n \<noteq> m then
                   ([Error [0x58, 0x548C, 0x59, 0x6570, 0x636E, 0x957F, 0x5EA6, 0x4E0D, 0x5339,
                            0x914D]], None)
                 else
                   (case (if \<not> py_bool labels then Inr (point_labels n)
                          else bind (py_len labels) (\<lambda>k.
                                 Inr (if k \<noteq> n then point_labels n else labels))) of
                      Inl e \<Rightarrow> raised e
                    | Inr labels' \<Rightarrow>
                        chart_and_details env (Scatter x_data y_data labels')
                          (Inr [([0x6807, 0x7B7E], labels'), ([0x58, 0x503C], x_data),
                                ([0x59, 0x503C], y_data)]))))"

definition render_scatter_chart :: "display \<Rightarrow> json \<Rightarrow> ui list" where
  "render_scatter_chart env chart_data =
     caught [0x6563, 0x70B9, 0x56FE, 0x6E32, 0x67D3, 0x9519, 0x8BEF, 0xFF1A]
       (render_scatter_chart_try env chart_data)"

definition msg_nothing_to_show :: pystr where
  "msg_nothing_to_show = [0x6CA1, 0x6709, 0x53EF, 0x663E, 0x793A, 0x7684, 0x5185, 0x5BB9]"

definition msg_unsupported :: pystr where
  "msg_unsupported = [0x4E0D, 0x652F, 0x6301, 0x7684, 0x54CD, 0x5E94, 0x683C, 0x5F0F]"

text \<open>The \<open>if\<close>/\<open>elif\<close> chain of \<open>render_response\<close>: its calls, or the exception it raises.\<close>

definition render_response_try :: "display \<Rightarrow> json \<Rightarrow> py_exn + ui list" where
  "render_response_try env response_data =
     bind (py_contains (u ''answer'') response_data) (\<lambda>b.
     if b then bind (py_getitem response_data (u ''answer'')) (\<lambda>v. Inr (render_text_answer env v))
     else
     bind (py_contains (u ''table'') response_data) (\<lambda>b.
     if b then bind (py_getitem response_data (u ''table'')) (\<lambda>v. Inr (render_table env v))
     else
     bind (py_contains (u ''bar'') response_data) (\<lambda>b.
     if b then bind (py_getitem response_data (u ''bar'')) (\<lambda>v. Inr (render_bar_chart env v))
     else
     bind (py_contains (u ''line'') response_data) (\<lambda>b.
     if b then bind (py_getitem response_data (u ''line'')) (\<lambda>v. Inr (render_line_chart env v))
     else
     bind (py_contains (u ''pie'') response_data) (\<lambda>b.
     if b then bind (py_getitem response_data (u ''pie'')) (\<lambda>v. Inr (render_pie_chart env v))
     else
     bind (py_contains (u ''scatter'') response_data) (\<lambda>b.
     if b then bind (py_getitem response_data (u ''scatter'')) (\<lambda>v. Inr (render_scatter_chart env v))
     else Inr [Warning msg_unsupported]))))))"

definition render_response :: "display \<Rightarrow> json \<Rightarrow> ui list" where
  "render_response env response_data =
     (if \<not> py_bool response_data then [Warning msg_nothing_to_show]
      else
        (case render_response_try env response_data of
           Inr calls \<Rightarrow> calls
         | Inl e \<Rightarrow>
             [Error ([0x53EF, 0x89C6, 0x5316, 0x6E32, 0x67D3, 0x9519, 0x8BEF, 0xFF1A] @ exn_str e),
              Expander [0x539F, 0x59CB, 0x54CD, 0x5E94, 0x6570, 0x636E] [Json response_data]]))"

section \<open>Definitions used in the statements\<close>

text \<open>
  The number of rows of the data of a table payload, \<open>len(data_rows)\<close> in the words of the
  specification: the length of the entry \<open>data\<close> of the payload, when the payload is an
  object with such an entry and the entry has a length.
\<close>

definition data_rows :: "json \<Rightarrow> nat option" where
  "data_rows table_data =
     (case table_data of
        JObj kvs \<Rightarrow>
          (case map_of kvs (u ''data'') of
             Some data \<Rightarrow> (case py_len data of Inr n \<Rightarrow> Some n | Inl _ \<Rightarrow> None)
           | None \<Rightarrow> None)
      | _ \<Rightarrow> None)"

text \<open>Definite inputs: an environment, a dataset of two rows, and two kinds of agents.\<close>

definition example_pandas :: "nat pandas" where
  "example_pandas =
     \<lparr>cell_str = (\<lambda>row v. case v of None \<Rightarrow> u ''nan'' | Some n \<Rightarrow> str_nat n),
      describe = (\<lambda>s. Inl (OtherException [])),
      value_counts = (\<lambda>s. Inl (OtherException []))\<rparr>"

definition example_frame :: "nat dataframe" where
  "example_frame =
     \<lparr>df_columns =
        [\<lparr>col_name = u ''item'', col_dtype = u ''object'', col_values = [Some 1, Some 2]\<rparr>,
         \<lparr>col_name = u ''qty'', col_dtype = u ''int64'', col_values = [Some 3, Some 5]\<rparr>],
      df_len = 2\<rparr>"

definition replying :: "pystr \<Rightarrow> agent" where
  "replying reply = \<lparr>model_invoke = (\<lambda>prompt. Inr reply), system_prompt = []\<rparr>"

definition failing :: "py_exn \<Rightarrow> agent" where
  "failing e = \<lparr>model_invoke = (\<lambda>prompt. Inl e), system_prompt = []\<rparr>"

definition reply_table :: pystr where
  \<open>reply_table = u ''{"table": {"columns": ["qty"], "data": [[1], [2], [3], [4], [5]]}}''\<close>



definition reply_both :: pystr where
  \<open>reply_both = u ''{"answer": "ok", "bar": {"columns": ["A", "B"], "data": [1]}}''\<close>

definition reply_fault :: pystr where
  \<open>reply_fault = u ''{"table": 5}''\<close>

definition example_display :: display where
  "example_display =
     \<lparr>py_repr = (\<lambda>x. u ''?''),
      table_frame = (\<lambda>data cols. Inl (OtherException (u ''ValueError''))),
      irregular_frame = (\<lambda>d. Inl (OtherException (u ''ValueError''))),
      csv_bytes = (\<lambda>f. []),
      pie_percent = (\<lambda>v. Inl (OtherException (u ''TypeError''))),
      irregular_figure = (\<lambda>fig. Some (OtherException (u ''ValueError'')))\<rparr>"

text \<open>
  The dispatch in the words of the specification: the six tags in their fixed order of
  priority, each with its renderer; a response is rendered by the first tag that is one
  of its keys, from the payload of that tag.
\<close>

definition renderers :: "display \<Rightarrow> (pystr \<times> (json \<Rightarrow> ui list)) list" where
  "renderers env =
     [(u ''answer'', render_text_answer env),
      (u ''table'', render_table env),
      (u ''bar'', render_bar_chart env),
      (u ''line'', render_line_chart env),
      (u ''pie'', render_pie_chart env),
      (u ''scatter'', render_scatter_chart env)]"

definition first_tag :: "display \<Rightarrow> (pystr \<times> json) list \<Rightarrow> (pystr \<times> (json \<Rightarrow> ui list)) option" where
  "first_tag env kvs = find (\<lambda>tr. map_of kvs (fst tr) \<noteq> None) (renderers env)"

definition render_by_priority :: "display \<Rightarrow> (pystr \<times> json) list \<Rightarrow> ui list" where
  "render_by_priority env kvs =
     (case first_tag env kvs of
        None \<Rightarrow> [Warning msg_unsupported]
      | Some (tag, render) \<Rightarrow> (case map_of kvs tag of Some payload \<Rightarrow> render payload | None \<Rightarrow> []))"

text \<open>
  The bound of the specification for a chart: the maximum of the numbers of distinct
  values of the textual columns (those of dtype \<open>object\<close>), and the number of rows of the
  dataset when there is no textual column.
\<close>

definition textual_columns :: "'v dataframe \<Rightarrow> 'v column list" where
  "textual_columns df = filter (\<lambda>c. col_dtype c = u ''object'') (df_columns df)"

definition max_distinct :: "'v dataframe \<Rightarrow> nat" where
  "max_distinct df =
     (if textual_columns df = [] then df_len df
      else Max (set (map nunique (textual_columns df))))"

text \<open>The payload that the check looks at: that of \<open>bar\<close> when it is a key, else that of \<open>line\<close>.\<close>

definition chart_payload :: "(pystr \<times> json) list \<Rightarrow> json option" where
  "chart_payload kvs =
     (case map_of kvs (u ''bar'') of Some c \<Rightarrow> Some c | None \<Rightarrow> map_of kvs (u ''line''))"



text \<open>A dataset with two columns of one label, and one of 102 rows.\<close>

definition duplicate_frame :: "nat dataframe" where
  "duplicate_frame =
     \<lparr>df_columns =
        [\<lparr>col_name = u ''a'', col_dtype = u ''int64'', col_values = [Some 1]\<rparr>,
         \<lparr>col_name = u ''a'', col_dtype = u ''int64'', col_values = [Some 2]\<rparr>],
      df_len = 1\<rparr>"



definition one_line :: "pystr \<Rightarrow> bool" where
  "one_line s \<longleftrightarrow> 0x0A \<notin> set s"







section \<open>Auxiliary facts\<close>

lemma bind_Inr [simp]: "bind (Inr x) f = f x"
  by (simp add: bind_def)

lemma bind_Inl [simp]: "bind (Inl e) f = Inl e"
  by (simp add: bind_def)

lemma py_contains_JObj: "py_contains k (JObj kvs) = Inr (map_of kvs k \<noteq> None)"
  by (simp add: py_contains_def map_of_eq_None_iff)

lemma py_getitem_JObj: "map_of kvs k = Some v \<Longrightarrow> py_getitem (JObj kvs) k = Inr v"
  by (simp add: py_getitem_def)

lemma model_invoke_replying [simp]: "model_invoke (replying reply) prompt = Inr reply"
  by (simp add: replying_def)

lemma model_invoke_failing [simp]: "model_invoke (failing e) prompt = Inl e"
  by (simp add: failing_def)

lemma validate_try_with_table:
  assumes "map_of kvs (u ''table'') = Some table_data"
  shows "validate_try (JObj kvs) df =
         bind (py_contains (u ''data'') table_data) (\<lambda>has_data.
           if has_data then
             bind (py_getitem table_data (u ''data'')) (\<lambda>data.
             bind (py_len data) (\<lambda>n.
             if n > df_len df * 2 then Inr False else Inr True))
           else Inr True)"
  using assms by (simp add: validate_try_def py_contains_JObj py_getitem_JObj)

lemma validate_table:
  assumes "map_of kvs (u ''table'') = Some table_data"
  shows "validate_data_consistency (JObj kvs) df \<longleftrightarrow>
         \<not> (\<exists>n. data_rows table_data = Some n \<and> n > 2 * df_len df)"
proof (cases table_data)
  case (JObj tkvs)
  show ?thesis
  proof (cases "map_of tkvs (u ''data'')")
    case None
    with JObj show ?thesis
      by (simp add: validate_data_consistency_def validate_try_with_table [OF assms]
          py_contains_JObj data_rows_def)
  next
    case (Some data)
    with JObj show ?thesis
      by (cases "py_len data")
        (auto simp add: validate_data_consistency_def validate_try_with_table [OF assms]
          py_contains_JObj py_getitem_JObj data_rows_def mult.commute)
  qed
qed (simp_all add: validate_data_consistency_def validate_try_with_table [OF assms]
        data_rows_def py_contains_def py_getitem_def)

lemma reply_table_points:
  "reply_table =
     [123, 34, 116, 97, 98, 108, 101, 34, 58, 32, 123, 34, 99, 111, 108, 117, 109, 110, 115, 34,
      58, 32, 91, 34, 113, 116, 121, 34, 93, 44, 32, 34, 100, 97, 116, 97, 34, 58, 32, 91, 91,
      49, 93, 44, 32, 91, 50, 93, 44, 32, 91, 51, 93, 44, 32, 91, 52, 93, 44, 32, 91, 53, 93,
      93, 125, 125]"
  by (simp add: reply_table_def u_def)

lemma strip_reply_table: "strip reply_table = reply_table"
  by (simp add: reply_table_points strip_def isspace_def)

lemma loads_reply_table:
  "json_loads reply_table =
     Inr (JObj [(u ''table'',
                 JObj [(u ''columns'', JArr [JStr (u ''qty'')]),
                       (u ''data'', JArr [JArr [JInt 1], JArr [JInt 2], JArr [JInt 3],
                                          JArr [JInt 4], JArr [JInt 5]])])])"
  by code_simp
















lemma strip_reply_both: "strip reply_both = reply_both"
  by (simp add: reply_both_def u_def strip_def isspace_def)

lemma loads_reply_both:
  "json_loads reply_both
     = Inr (JObj [(u ''answer'', JStr (u ''ok'')),
                  (u ''bar'', JObj [(u ''columns'', JArr [JStr (u ''A''), JStr (u ''B'')]),
                                    (u ''data'', JArr [JInt 1])])])"
  by code_simp

lemma strip_reply_fault: "strip reply_fault = reply_fault"
  by (simp add: reply_fault_def u_def strip_def isspace_def)

lemma loads_reply_fault: "json_loads reply_fault = Inr (JObj [(u ''table'', JInt 5)])"
  by code_simp

lemma validate_reply_both:
  "\<not> validate_data_consistency
        (JObj [(u ''answer'', JStr (u ''ok'')),
               (u ''bar'', JObj [(u ''columns'', JArr [JStr (u ''A''), JStr (u ''B'')]),
                                 (u ''data'', JArr [JInt 1])])]) df"
  by (simp add: validate_data_consistency_def validate_try_def py_contains_JObj py_getitem_def
      py_len_def u_def)

lemma render_reply_both:
  "render_response env
        (JObj [(u ''answer'', JStr (u ''ok'')),
               (u ''bar'', JObj [(u ''columns'', JArr [JStr (u ''A''), JStr (u ''B'')]),
                                 (u ''data'', JArr [JInt 1])])])
     = render_text_answer env (JStr (u ''ok''))"
  by (simp add: render_response_def render_response_try_def py_bool_def py_contains_JObj
      py_getitem_def)

lemma render_response_object:
  "kvs \<noteq> [] \<Longrightarrow> render_response env (JObj kvs) = render_by_priority env kvs"
  by (auto simp add: render_response_def render_response_try_def py_bool_def py_contains_JObj
      py_getitem_def render_by_priority_def first_tag_def renderers_def)

lemma py_get_JObj: "py_get (JObj kvs) k d = Inr (case map_of kvs k of Some v \<Rightarrow> v | None \<Rightarrow> d)"
  by (simp add: py_get_def)

lemma py_bool_JArr: "py_bool (JArr xs) = (xs \<noteq> [])"
  by (simp add: py_bool_def)

lemma py_len_JArr: "py_len (JArr xs) = Inr (length xs)"
  by (simp add: py_len_def)

lemma py_len_point_labels: "py_len (point_labels n) = Inr n"
  by (simp add: point_labels_def py_len_def)

lemma scatter_drawn:
  assumes "length ys = length xs"
  shows "chart_and_details env (Scatter (JArr xs) (JArr ys) (point_labels (length xs)))
     (Inr [(a, point_labels (length xs)), (b, JArr xs), (c, JArr ys)])
   = ([PlotlyChart (Scatter (JArr xs) (JArr ys) (point_labels (length xs))),
       Expander title_details
         [Dataframe (Frame [(a, point_labels (length xs)), (b, JArr xs), (c, JArr ys)])]],
      None)"
  using assms
  by (simp add: chart_and_details_def go_Figure_def figure_lists_def is_list_def
      pd_DataFrame_def uniform_lists_def py_len_point_labels point_labels_def py_len_def)

lemma filter_name_distinct:
  "distinct (map f cols) \<Longrightarrow> c \<in> set cols \<Longrightarrow> filter (\<lambda>x. f x = f c) cols = [c]"
proof (induction cols)
  case Nil
  then show ?case by simp
next
  case (Cons a cols)
  show ?case
  proof (cases "c = a")
    case True
    with Cons.prems have "filter (\<lambda>x. f x = f a) cols = []"
      by (force simp add: filter_empty_conv image_iff)
    with True show ?thesis by simp
  next
    case False
    with Cons show ?thesis by auto
  qed
qed

lemma df_series_distinct:
  "distinct (columns df) \<Longrightarrow> c \<in> set (df_columns df) \<Longrightarrow> df_series df (col_name c) = Inr c"
  by (simp add: df_series_def columns_def filter_name_distinct)

lemma object_nuniques_distinct:
  "distinct (columns df) \<Longrightarrow> set cs \<subseteq> set (df_columns df) \<Longrightarrow>
   object_nuniques df (map col_name cs)
     = Inr (map nunique (filter (\<lambda>c. col_dtype c = u ''object'') cs))"
  by (induction cs) (simp_all add: df_series_distinct)


lemma foldl_max_Max: "foldl max x xs = Max (set (x # xs))"
proof (induction xs arbitrary: x)
  case Nil
  show ?case by simp
next
  case (Cons a xs)
  have "Max (set (max x a # xs)) = Max (set (x # a # xs))"
    by (cases "xs = []") (simp_all add: max.assoc)
  with Cons [of "max x a"] show ?case by simp
qed

lemma max_unique_values_distinct:
  assumes "distinct (columns df)"
  shows "max_unique_values df = Inr (max_distinct df)"
proof -
  have "object_nuniques df (columns df) = Inr (map nunique (textual_columns df))"
    using object_nuniques_distinct [OF assms, of "df_columns df"]
    by (simp add: columns_def textual_columns_def)
  then show ?thesis
    by (cases "textual_columns df")
      (simp_all add: max_unique_values_def max_default_def max_distinct_def foldl_max_Max)
qed

lemma duplicate_name:
  "\<not> distinct (map f cols) \<Longrightarrow> \<exists>c \<in> set cols. 2 \<le> length (filter (\<lambda>x. f x = f c) cols)"
proof (induction cols)
  case Nil
  then show ?case by simp
next
  case (Cons a cols)
  show ?case
  proof (cases "f a \<in> f ` set cols")
    case True
    then have "filter (\<lambda>x. f x = f a) cols \<noteq> []"
      by (auto simp add: filter_empty_conv)
    then have "1 \<le> length (filter (\<lambda>x. f x = f a) cols)"
      by (cases "filter (\<lambda>x. f x = f a) cols") simp_all
    then show ?thesis by auto
  next
    case False
    with Cons.prems have "\<not> distinct (map f cols)" by simp
    from Cons.IH [OF this] obtain c where "c \<in> set cols"
      and "2 \<le> length (filter (\<lambda>x. f x = f c) cols)" by blast
    then show ?thesis by (auto intro!: bexI [of _ c])
  qed
qed

lemma df_series_duplicate:
  assumes "\<not> distinct (columns df)"
  shows "\<exists>col \<in> set (columns df). \<exists>e. df_series df col = Inl e"
proof -
  from duplicate_name [OF assms [unfolded columns_def]]
  obtain c where c: "c \<in> set (df_columns df)"
    and two: "2 \<le> length (filter (\<lambda>x. col_name x = col_name c) (df_columns df))" by blast
  have "\<exists>a b r. xs = a # b # r" if "2 \<le> length xs" for xs :: "'a column list"
    using that by (cases xs; cases "tl xs") auto
  from this [OF two] obtain a b r
    where "filter (\<lambda>x. col_name x = col_name c) (df_columns df) = a # b # r"
    by blast
  then have "\<exists>e. df_series df (col_name c) = Inl e"
    by (simp add: df_series_def)
  with c show ?thesis by (auto simp add: columns_def)
qed

lemma object_nuniques_raises:
  "\<exists>col \<in> set cs. \<exists>e. df_series df col = Inl e \<Longrightarrow> \<exists>e. object_nuniques df cs = Inl e"
proof (induction cs)
  case Nil
  then show ?case by simp
next
  case (Cons a cs)
  show ?case
  proof (cases "df_series df a")
    case (Inl e)
    then show ?thesis by simp
  next
    case (Inr s)
    with Cons.prems have "\<exists>col \<in> set cs. \<exists>e. df_series df col = Inl e" by auto
    from Cons.IH [OF this] Inr show ?thesis by auto
  qed
qed

lemma max_unique_values_duplicate:
  "\<not> distinct (columns df) \<Longrightarrow> \<exists>e. max_unique_values df = Inl e"
  using object_nuniques_raises [OF df_series_duplicate, of df]
  by (auto simp add: max_unique_values_def)

lemma validate_try_chart:
  assumes "map_of kvs (u ''table'') = None"
    and "chart_payload kvs = Some chart_data"
  shows "validate_try (JObj kvs) df =
         bind (py_contains (u ''data'') chart_data) (\<lambda>has_data.
         bind (if has_data then py_contains (u ''columns'') chart_data else Inr False) (\<lambda>has_both.
         if has_both then
           bind (py_getitem chart_data (u ''data'')) (\<lambda>data.
           bind (py_len data) (\<lambda>n.
           bind (py_getitem chart_data (u ''columns'')) (\<lambda>cols.
           bind (py_len cols) (\<lambda>m.
           if n \<noteq> m then Inr False
           else
             bind (max_unique_values df) (\<lambda>max_unique.
             if n > max_unique * 2 then Inr False else Inr True)))))
         else Inr True))"
  using assms
  by (auto simp add: validate_try_def py_contains_JObj py_getitem_JObj chart_payload_def Let_def
      split: option.splits)














lemma one_line_simps [simp]:
  "one_line []" "one_line (c # s) \<longleftrightarrow> c \<noteq> 0x0A \<and> one_line s"
  "one_line (a @ b) \<longleftrightarrow> one_line a \<and> one_line b"
  by (auto simp add: one_line_def)

lemma one_line_str_nat [simp]: "one_line (str_nat n)"
proof (induction n rule: str_nat.induct)
  case (1 n)
  show ?case
  proof (cases "n < 10")
    case True
    then show ?thesis by (subst str_nat.simps) simp
  next
    case False
    with 1 show ?thesis by (subst str_nat.simps) simp
  qed
qed






















section \<open>The claims\<close>

text \<open>
  C1: \<open>process_query\<close> never raises an exception to its caller.  Whatever the question,
  the dataset, the decoder and the model do, it returns a result: when the invocation of
  the model raises an exception \<open>e\<close>, the result is the failure whose error text is the
  prefix of the processing error followed by \<open>str(e)\<close> and whose raw reply is empty; when
  the model replies, the result is a success with the stripped reply, one of the two
  failures with the stripped reply, or the processing error with an empty raw reply.
  Every exception that leaves the body of the \<open>try\<close> block, at whatever step, becomes the
  processing error.
\<close>

theorem process_query_never_raises:
  "(case model_invoke self (full_prompt self (generate_complete_data_info pd df) q) of
      Inl e \<Rightarrow> process_query loads pd self q df = Failure (msg_processing @ exn_str e) []
    | Inr content \<Rightarrow>
        (\<exists>d. process_query loads pd self q df = Success d (strip content)) \<or>
        process_query loads pd self q df = Failure msg_inconsistent (strip content) \<or>
        (\<exists>m doc pos. process_query loads pd self q df =
           Failure (msg_parse_failed @ exn_str (JSONDecodeError m doc pos)) (strip content)) \<or>
        (\<exists>e. process_query loads pd self q df = Failure (msg_processing @ exn_str e) []))
   \<and> (case process_query_try loads pd self q df of
        Inl e \<Rightarrow> process_query loads pd self q df = Failure (msg_processing @ exn_str e) []
      | Inr r \<Rightarrow> process_query loads pd self q df = r)"
proof -
  have second: "(case process_query_try loads pd self q df of
        Inl e \<Rightarrow> process_query loads pd self q df = Failure (msg_processing @ exn_str e) []
      | Inr r \<Rightarrow> process_query loads pd self q df = r)"
    by (simp add: process_query_def split: sum.splits)
  have first: "(case model_invoke self (full_prompt self (generate_complete_data_info pd df) q) of
      Inl e \<Rightarrow> process_query loads pd self q df = Failure (msg_processing @ exn_str e) []
    | Inr content \<Rightarrow>
        (\<exists>d. process_query loads pd self q df = Success d (strip content)) \<or>
        process_query loads pd self q df = Failure msg_inconsistent (strip content) \<or>
        (\<exists>m doc pos. process_query loads pd self q df =
           Failure (msg_parse_failed @ exn_str (JSONDecodeError m doc pos)) (strip content)) \<or>
        (\<exists>e. process_query loads pd self q df = Failure (msg_processing @ exn_str e) []))"
  proof (cases "model_invoke self (full_prompt self (generate_complete_data_info pd df) q)")
    case (Inl e)
    then show ?thesis
      by (simp add: process_query_def process_query_try_def)
  next
    case (Inr content)
    show ?thesis
    proof (cases "loads (strip content)")
      case (Inr result)
      with \<open>model_invoke self _ = Inr content\<close> show ?thesis
        by (auto simp add: process_query_def process_query_try_def Let_def)
    next
      case (Inl x)
      note direct = this
      show ?thesis
      proof (cases x)
        case (JSONDecodeError m doc pos)
        show ?thesis
        proof (cases "extract_json_from_text loads (strip content)")
          case (Inl e')
          with Inr direct JSONDecodeError show ?thesis
            by (auto simp add: process_query_def process_query_try_def Let_def)
        next
          case (Inr res)
          with \<open>model_invoke self _ = Inr content\<close> direct JSONDecodeError show ?thesis
            by (cases res) (auto simp add: process_query_def process_query_try_def Let_def)
        qed
      qed (use Inr direct in \<open>auto simp add: process_query_def process_query_try_def Let_def\<close>)
    qed
  qed
  from first second show ?thesis by (rule conjI)
qed

theorem process_query_never_raises_witness:
  "process_query json_loads example_pandas (failing (OtherException (u ''connection refused'')))
     (u ''total?'') example_frame
   = Failure (msg_processing @ u ''connection refused'') []"
  using process_query_never_raises
    [where self = "failing (OtherException (u ''connection refused''))" and pd = example_pandas
       and df = example_frame and q = "u ''total?''" and loads = json_loads]
  by (simp add: exn_str_def)



text \<open>
  C3: for a reply that is parsed directly to an object with a \<open>table\<close> key, and a dataset
  of \<open>n\<close> rows, the consistency check rejects the reply if and only if the data of the
  table has more than \<open>2 * n\<close> rows, and \<open>process_query\<close> then returns the failure with the
  text of the inconsistent reply; with at most \<open>2 * n\<close> rows (or no data) the reply passes
  and is returned as a success.  For a payload with the lists \<open>columns\<close> and \<open>data\<close>, the
  number of rows is the length of \<open>data\<close>.
\<close>

theorem table_rejected_iff_too_many_rows:
  assumes "model_invoke self (full_prompt self (generate_complete_data_info pd df) q) = Inr content"
    and "loads (strip content) = Inr (JObj kvs)"
    and "map_of kvs (u ''table'') = Some table_data"
  shows "(validate_data_consistency (JObj kvs) df \<longleftrightarrow>
            \<not> (\<exists>n. data_rows table_data = Some n \<and> n > 2 * df_len df))
       \<and> process_query loads pd self q df =
           (if \<exists>n. data_rows table_data = Some n \<and> n > 2 * df_len df
            then Failure msg_inconsistent (strip content)
            else Success (JObj kvs) (strip content))
       \<and> (\<forall>cols rows. table_data = JObj [(u ''columns'', cols), (u ''data'', JArr rows)] \<longrightarrow>
            (\<exists>n. data_rows table_data = Some n \<and> n > 2 * df_len df) = (length rows > 2 * df_len df))"
proof -
  note v = validate_table [OF assms(3), of df]
  have "process_query loads pd self q df =
           (if \<exists>n. data_rows table_data = Some n \<and> n > 2 * df_len df
            then Failure msg_inconsistent (strip content)
            else Success (JObj kvs) (strip content))"
    using assms(1,2) v by (simp add: process_query_def process_query_try_def Let_def)
  moreover have "\<forall>cols rows. table_data = JObj [(u ''columns'', cols), (u ''data'', JArr rows)] \<longrightarrow>
            (\<exists>n. data_rows table_data = Some n \<and> n > 2 * df_len df) = (length rows > 2 * df_len df)"
    by (auto simp add: data_rows_def py_len_def u_def)
  ultimately show ?thesis using v by blast
qed

theorem table_rejected_iff_too_many_rows_witness:
  "process_query json_loads example_pandas (replying reply_table) (u ''list the rows'') example_frame
   = Failure msg_inconsistent reply_table"
proof -
  have "map_of [(u ''table'',
                 JObj [(u ''columns'', JArr [JStr (u ''qty'')]),
                       (u ''data'', JArr [JArr [JInt 1], JArr [JInt 2], JArr [JInt 3],
                                          JArr [JInt 4], JArr [JInt 5]])])] (u ''table'')
        = Some (JObj [(u ''columns'', JArr [JStr (u ''qty'')]),
                       (u ''data'', JArr [JArr [JInt 1], JArr [JInt 2], JArr [JInt 3],
                                          JArr [JInt 4], JArr [JInt 5]])])"
    by simp
  from table_rejected_iff_too_many_rows
    [where self = "replying reply_table" and pd = example_pandas and df = example_frame
       and q = "u ''list the rows''" and content = reply_table and loads = json_loads,
     OF model_invoke_replying _ this]
  show ?thesis
    by (simp add: strip_reply_table loads_reply_table data_rows_def py_len_def u_def
        example_frame_def)
qed

text \<open>
  C4, amended: for a parsed reply that is an object without a \<open>table\<close> key, whose chart
  payload (that of \<open>bar\<close> when present, else that of \<open>line\<close>) is an object with the fields
  \<open>data\<close> and \<open>columns\<close>, both with a length: the check rejects the reply when
  \<open>len(data) \<noteq> len(columns)\<close>; when the lengths agree and the labels of the columns of the
  dataset are distinct, it rejects the reply if and only if \<open>len(data) > 2 * M\<close>, with \<open>M\<close>
  the maximum number of distinct values over the textual columns and the number of rows
  when there is none; when the lengths agree and two columns of the dataset share a label,
  the evaluation of \<open>M\<close> raises and the reply passes.  A reply with a \<open>table\<close> key is checked
  as a table only, so that its \<open>bar\<close> payload is not looked at: see the counterexample.
\<close>

theorem chart_check_amended:
  assumes "map_of kvs (u ''table'') = None"
    and "chart_payload kvs = Some (JObj ckvs)"
    and "map_of ckvs (u ''data'') = Some data"
    and "map_of ckvs (u ''columns'') = Some cols"
    and "py_len data = Inr n"
    and "py_len cols = Inr m"
  shows "(n \<noteq> m \<longrightarrow> \<not> validate_data_consistency (JObj kvs) df)
       \<and> (n = m \<longrightarrow> distinct (columns df) \<longrightarrow>
            validate_data_consistency (JObj kvs) df = (\<not> n > 2 * max_distinct df))
       \<and> (n = m \<longrightarrow> \<not> distinct (columns df) \<longrightarrow> validate_data_consistency (JObj kvs) df)"
proof -
  have body: "validate_try (JObj kvs) df =
          (if n \<noteq> m then Inr False
           else bind (max_unique_values df) (\<lambda>max_unique.
                  if n > max_unique * 2 then Inr False else Inr True))"
    using assms(3-6)
    by (simp add: validate_try_chart [OF assms(1,2)] py_contains_JObj py_getitem_JObj)
  have "n \<noteq> m \<longrightarrow> \<not> validate_data_consistency (JObj kvs) df"
    by (simp add: validate_data_consistency_def body)
  moreover have "n = m \<longrightarrow> distinct (columns df) \<longrightarrow>
            validate_data_consistency (JObj kvs) df = (\<not> n > 2 * max_distinct df)"
    by (auto simp add: validate_data_consistency_def body max_unique_values_distinct mult.commute)
  moreover have "n = m \<longrightarrow> \<not> distinct (columns df) \<longrightarrow> validate_data_consistency (JObj kvs) df"
  proof (intro impI)
    assume "n = m" and "\<not> distinct (columns df)"
    from max_unique_values_duplicate [OF this(2)] obtain e where "max_unique_values df = Inl e" ..
    with \<open>n = m\<close> show "validate_data_consistency (JObj kvs) df"
      by (simp add: validate_data_consistency_def body)
  qed
  ultimately show ?thesis by blast
qed

theorem chart_check_amended_witness:
  "\<not> validate_data_consistency
       (JObj [(u ''bar'',
               JObj [(u ''columns'', JArr [JStr (u ''A''), JStr (u ''B''), JStr (u ''C''),
                                           JStr (u ''D''), JStr (u ''E'')]),
                     (u ''data'', JArr [JInt 1, JInt 2, JInt 3, JInt 4, JInt 5])])])
       example_frame
   \<and> validate_data_consistency
       (JObj [(u ''line'',
               JObj [(u ''columns'', JArr [JStr (u ''A''), JStr (u ''B'')]),
                     (u ''data'', JArr [JInt 1, JInt 2])])])
       example_frame
   \<and> \<not> validate_data_consistency
       (JObj [(u ''line'',
               JObj [(u ''columns'', JArr [JStr (u ''A''), JStr (u ''B'')]),
                     (u ''data'', JArr [JInt 1])])])
       example_frame
   \<and> validate_data_consistency
       (JObj [(u ''line'',
               JObj [(u ''columns'', JArr [JStr (u ''A''), JStr (u ''B''), JStr (u ''C'')]),
                     (u ''data'', JArr [JInt 1, JInt 2, JInt 3])])])
       duplicate_frame"
proof -
  have d: "distinct (columns example_frame)"
    by (simp add: columns_def example_frame_def u_def)
  have nd: "\<not> distinct (columns duplicate_frame)"
    by (simp add: columns_def duplicate_frame_def)
  have M: "max_distinct example_frame = 2"
    by (simp add: max_distinct_def textual_columns_def example_frame_def nunique_def u_def)
  have t: "map_of [(k, v)] (u ''table'') = None" if "k = u ''bar'' \<or> k = u ''line''" for k and v :: json
    using that by (auto simp add: u_def)
  have c: "chart_payload [(k, v)] = Some v" if "k = u ''bar'' \<or> k = u ''line''" for k and v :: json
    using that by (auto simp add: chart_payload_def u_def)
  have l: "py_len (JArr xs) = Inr (length xs)" for xs
    by (simp add: py_len_def)
  have g1: "map_of [(u ''columns'', x), (u ''data'', y)] (u ''data'') = Some y" for x y :: json
    by (simp add: u_def)
  have g2: "map_of [(u ''columns'', x), (u ''data'', y)] (u ''columns'') = Some x" for x y :: json
    by simp
  from chart_check_amended [OF t c g1 g2 l l, of "u ''bar''" _ _ example_frame] d M
  have "\<not> validate_data_consistency
       (JObj [(u ''bar'',
               JObj [(u ''columns'', JArr [JStr (u ''A''), JStr (u ''B''), JStr (u ''C''),
                                           JStr (u ''D''), JStr (u ''E'')]),
                     (u ''data'', JArr [JInt 1, JInt 2, JInt 3, JInt 4, JInt 5])])])
       example_frame"
    by simp
  moreover from chart_check_amended [OF t c g1 g2 l l, of "u ''line''" _ _ example_frame] d M
  have "validate_data_consistency
       (JObj [(u ''line'',
               JObj [(u ''columns'', JArr [JStr (u ''A''), JStr (u ''B'')]),
                     (u ''data'', JArr [JInt 1, JInt 2])])])
       example_frame"
    by simp
  moreover from chart_check_amended [OF t c g1 g2 l l, of "u ''line''" _ _ example_frame]
  have "\<not> validate_data_consistency
       (JObj [(u ''line'',
               JObj [(u ''columns'', JArr [JStr (u ''A''), JStr (u ''B'')]),
                     (u ''data'', JArr [JInt 1])])])
       example_frame"
    by simp
  moreover from chart_check_amended [OF t c g1 g2 l l, of "u ''line''" _ _ duplicate_frame] nd
  have "validate_data_consistency
       (JObj [(u ''line'',
               JObj [(u ''columns'', JArr [JStr (u ''A''), JStr (u ''B''), JStr (u ''C'')]),
                     (u ''data'', JArr [JInt 1, JInt 2, JInt 3])])])
       duplicate_frame"
    by simp
  ultimately show ?thesis by blast
qed

theorem chart_check_table_first_counterexample:
  "py_contains (u ''bar'')
     (JObj [(u ''table'', JObj []),
            (u ''bar'', JObj [(u ''columns'', JArr [JStr (u ''A''), JStr (u ''B'')]),
                              (u ''data'', JArr [JInt 1])])]) = Inr True
   \<and> py_len (JArr [JInt 1]) = Inr 1
   \<and> py_len (JArr [JStr (u ''A''), JStr (u ''B'')]) = Inr 2
   \<and> validate_data_consistency
       (JObj [(u ''table'', JObj []),
              (u ''bar'', JObj [(u ''columns'', JArr [JStr (u ''A''), JStr (u ''B'')]),
                                (u ''data'', JArr [JInt 1])])])
       example_frame"
  by (simp add: validate_data_consistency_def validate_try_def py_contains_JObj py_getitem_JObj
      py_len_def u_def)

text \<open>
  C5: when the evaluation of the consistency check raises an exception, whatever the
  reply and the dataset, the check returns \<open>True\<close>: the reply is treated as valid, it is
  not rejected and the exception does not leave the check.  A reply that is parsed
  directly to such a value is therefore returned by \<open>process_query\<close> as a success.
\<close>

theorem validate_fails_open:
  assumes "validate_try ai_result df = Inl e"
  shows "validate_data_consistency ai_result df
       \<and> (model_invoke self (full_prompt self (generate_complete_data_info pd df) q) = Inr content
            \<and> loads (strip content) = Inr ai_result
          \<longrightarrow> process_query loads pd self q df = Success ai_result (strip content))"
proof -
  from assms have pass: "validate_data_consistency ai_result df"
    by (simp add: validate_data_consistency_def)
  then show ?thesis
    by (simp add: process_query_def process_query_try_def Let_def)
qed

theorem validate_fails_open_witness:
  "validate_try (JObj [(u ''table'', JInt 5)]) example_frame
     = Inl (TypeError (u ''argument of type '' @ quoted (u ''int'') @ u '' is not iterable''))
   \<and> validate_data_consistency (JObj [(u ''table'', JInt 5)]) example_frame
   \<and> process_query json_loads example_pandas (replying reply_fault) (u ''total?'') example_frame
     = Success (JObj [(u ''table'', JInt 5)]) reply_fault"
proof -
  have raised: "validate_try (JObj [(u ''table'', JInt 5)]) example_frame
     = Inl (TypeError (u ''argument of type '' @ quoted (u ''int'') @ u '' is not iterable''))"
    by (simp add: validate_try_def py_contains_JObj py_getitem_JObj)
      (simp add: py_contains_def type_name_def)
  from validate_fails_open
    [OF raised, where self = "replying reply_fault" and pd = example_pandas
       and q = "u ''total?''" and content = reply_fault and loads = json_loads]
    raised
  show ?thesis
    by (simp add: strip_reply_fault loads_reply_fault)
qed

text \<open>
  C6, amended: a response that is a non-empty object is rendered by the first of the tags
  \<open>answer\<close>, \<open>table\<close>, \<open>bar\<close>, \<open>line\<close>, \<open>pie\<close>, \<open>scatter\<close> that is one of its keys, from the
  payload of that tag only, whatever other keys there are; with both an \<open>answer\<close> and a
  \<open>table\<close> key it is rendered as its answer; a non-empty object with none of the six keys
  gives the notice of an unsupported format.  The empty object gives the notice that
  there is nothing to display and not that of an unsupported format, which is why the
  claim does not hold as stated: see the counterexample.
\<close>

theorem render_dispatch_priority:
  "(kvs \<noteq> [] \<longrightarrow> render_response env (JObj kvs) = render_by_priority env kvs)
   \<and> (map_of kvs (u ''answer'') = Some a \<longrightarrow> map_of kvs (u ''table'') = Some t \<longrightarrow>
        render_response env (JObj kvs) = render_text_answer env a)
   \<and> (kvs \<noteq> [] \<longrightarrow> (\<forall>tag \<in> set (map fst (renderers env)). map_of kvs tag = None) \<longrightarrow>
        render_response env (JObj kvs) = [Warning msg_unsupported])
   \<and> render_response env (JObj []) = [Warning msg_nothing_to_show]"
proof -
  have "map_of kvs (u ''answer'') = Some a \<longrightarrow> map_of kvs (u ''table'') = Some t \<longrightarrow>
        render_response env (JObj kvs) = render_text_answer env a"
    by (auto simp add: render_response_def render_response_try_def py_bool_def py_contains_JObj
      py_getitem_def)
  moreover have "kvs \<noteq> [] \<longrightarrow> (\<forall>tag \<in> set (map fst (renderers env)). map_of kvs tag = None) \<longrightarrow>
        render_response env (JObj kvs) = [Warning msg_unsupported]"
    by (simp add: render_response_def render_response_try_def py_bool_def py_contains_JObj
      renderers_def)
  moreover have "render_response env (JObj []) = [Warning msg_nothing_to_show]"
    by (simp add: render_response_def py_bool_def)
  ultimately show ?thesis using render_response_object by blast
qed

theorem render_dispatch_priority_witness:
  "render_response example_display
     (JObj [(u ''answer'', JStr (u ''fine'')), (u ''table'', JObj [])])
   = [Info ([0x5206, 0x6790, 0x7ED3, 0x679C, 0x3A, 0x20] @ u ''fine'')]
   \<and> render_response example_display (JObj [(u ''note'', JNull)]) = [Warning msg_unsupported]"
proof -
  have a: "map_of [(u ''answer'', JStr (u ''fine'')), (u ''table'', JObj [])] (u ''answer'')
           = Some (JStr (u ''fine''))"
    by simp
  have t: "map_of [(u ''answer'', JStr (u ''fine'')), (u ''table'', JObj [])] (u ''table'')
           = Some (JObj [])"
    by (simp add: u_def)
  have n: "\<forall>tag \<in> set (map fst (renderers example_display)). map_of [(u ''note'', JNull)] tag = None"
    by (simp add: renderers_def u_def)
  from render_dispatch_priority
    [where kvs = "[(u ''answer'', JStr (u ''fine'')), (u ''table'', JObj [])]"
       and env = example_display and a = "JStr (u ''fine'')" and t = "JObj []"] a t
  have "render_response example_display
     (JObj [(u ''answer'', JStr (u ''fine'')), (u ''table'', JObj [])])
     = render_text_answer example_display (JStr (u ''fine''))"
    by blast
  moreover from render_dispatch_priority
    [where kvs = "[(u ''note'', JNull)]" and env = example_display] n
  have "render_response example_display (JObj [(u ''note'', JNull)]) = [Warning msg_unsupported]"
    by blast
  ultimately show ?thesis
    by (simp add: render_text_answer_def py_str_def)
qed

theorem render_empty_object_counterexample:
  "render_response example_display (JObj []) = [Warning msg_nothing_to_show]
   \<and> render_response example_display (JObj []) \<noteq> [Warning msg_unsupported]"
  by (simp add: render_response_def py_bool_def msg_nothing_to_show_def msg_unsupported_def)

text \<open>
  C7: for a scatter payload whose \<open>x\<close> and \<open>y\<close> are non-empty lists of one length, and
  whose \<open>labels\<close> are absent or of a length other than that of \<open>x\<close>, the renderer raises no
  error: it draws the chart with the labels U+70B9 (point) followed by \<open>i\<close>, for \<open>i\<close> from 1
  to \<open>len(x)\<close>, and shows the details with the same labels.  For \<open>x = [1, 2, 3]\<close>,
  \<open>y = [4, 5, 6]\<close> and no labels these are the three labels with 1, 2 and 3.
\<close>

theorem scatter_labels_synthesized:
  assumes "map_of kvs (u ''x'') = Some (JArr xs)"
    and "map_of kvs (u ''y'') = Some (JArr ys)"
    and "xs \<noteq> []"
    and "length ys = length xs"
    and "map_of kvs (u ''labels'') = None \<or>
         (\<exists>labels k. map_of kvs (u ''labels'') = Some labels \<and> py_len labels = Inr k \<and> k \<noteq> length xs)"
  shows "render_scatter_chart env (JObj kvs)
         = [PlotlyChart (Scatter (JArr xs) (JArr ys) (point_labels (length xs))),
            Expander title_details
              [Dataframe (Frame [([0x6807, 0x7B7E], point_labels (length xs)),
                                 ([0x58, 0x503C], JArr xs), ([0x59, 0x503C], JArr ys)])]]
       \<and> point_labels (length xs)
           = JArr (map (\<lambda>i. JStr ([0x70B9] @ str_nat i)) [1..<length xs + 1])"
proof -
  from assms(3,4) have ys: "ys \<noteq> []" by auto
  define given where "given = (case map_of kvs (u ''labels'') of Some v \<Rightarrow> v | None \<Rightarrow> JArr [])"
  have labels: "(if \<not> py_bool given then Inr (point_labels (length xs))
                 else bind (py_len given)
                        (\<lambda>k. Inr (if k \<noteq> length xs then point_labels (length xs) else given)))
                = Inr (point_labels (length xs))"
    using assms(5) by (auto simp add: py_bool_def given_def)
  have "render_scatter_chart_try env (JObj kvs)
        = (case (if \<not> py_bool given then Inr (point_labels (length xs))
                 else bind (py_len given)
                        (\<lambda>k. Inr (if k \<noteq> length xs then point_labels (length xs) else given))) of
             Inl e \<Rightarrow> raised e
           | Inr labels' \<Rightarrow>
               chart_and_details env (Scatter (JArr xs) (JArr ys) labels')
                 (Inr [([0x6807, 0x7B7E], labels'), ([0x58, 0x503C], JArr xs),
                       ([0x59, 0x503C], JArr ys)]))"
    unfolding given_def using assms(1-4) ys
    by (simp add: render_scatter_chart_try_def py_get_JObj py_bool_JArr py_len_JArr)
  also have "\<dots> = ([PlotlyChart (Scatter (JArr xs) (JArr ys) (point_labels (length xs))),
            Expander title_details
              [Dataframe (Frame [([0x6807, 0x7B7E], point_labels (length xs)),
                                 ([0x58, 0x503C], JArr xs), ([0x59, 0x503C], JArr ys)])]], None)"
    unfolding labels by (simp add: scatter_drawn [OF assms(4)])
  finally have "render_scatter_chart env (JObj kvs)
         = [PlotlyChart (Scatter (JArr xs) (JArr ys) (point_labels (length xs))),
            Expander title_details
              [Dataframe (Frame [([0x6807, 0x7B7E], point_labels (length xs)),
                                 ([0x58, 0x503C], JArr xs), ([0x59, 0x503C], JArr ys)])]]"
    by (simp add: render_scatter_chart_def caught_def)
  moreover have "map (\<lambda>i. JStr ([0x70B9] @ str_nat (i + 1))) [0..<n]
                 = map (\<lambda>i. JStr ([0x70B9] @ str_nat i)) [1..<n + 1]" for n
    by (induction n) simp_all
  ultimately show ?thesis by (simp add: point_labels_def)
qed

theorem scatter_labels_synthesized_witness:
  "render_scatter_chart example_display
     (JObj [(u ''x'', JArr [JInt 1, JInt 2, JInt 3]), (u ''y'', JArr [JInt 4, JInt 5, JInt 6])])
   = [PlotlyChart (Scatter (JArr [JInt 1, JInt 2, JInt 3]) (JArr [JInt 4, JInt 5, JInt 6])
        (JArr [JStr ([0x70B9] @ u ''1''), JStr ([0x70B9] @ u ''2''), JStr ([0x70B9] @ u ''3'')])),
      Expander title_details
        [Dataframe (Frame
          [([0x6807, 0x7B7E],
            JArr [JStr ([0x70B9] @ u ''1''), JStr ([0x70B9] @ u ''2''), JStr ([0x70B9] @ u ''3'')]),
           ([0x58, 0x503C], JArr [JInt 1, JInt 2, JInt 3]),
           ([0x59, 0x503C], JArr [JInt 4, JInt 5, JInt 6])])]]"
proof -
  have p: "point_labels (length [JInt 1, JInt 2, JInt 3])
           = JArr [JStr ([0x70B9] @ u ''1''), JStr ([0x70B9] @ u ''2''), JStr ([0x70B9] @ u ''3'')]"
    by (simp add: point_labels_def str_nat.simps u_def upt_rec)
  from scatter_labels_synthesized
    [where kvs = "[(u ''x'', JArr [JInt 1, JInt 2, JInt 3]), (u ''y'', JArr [JInt 4, JInt 5, JInt 6])]"
       and xs = "[JInt 1, JInt 2, JInt 3]" and ys = "[JInt 4, JInt 5, JInt 6]"
       and env = example_display]
  show ?thesis
    unfolding p by (simp add: u_def)
qed






text \<open>
  C10: the consistency check looks at the \<open>bar\<close> key whatever the priority of the renderer.
  The reply \<open>{"answer": "ok", "bar": {"columns": ["A", "B"], "data": [1]}}\<close> has an \<open>answer\<close>
  key and a \<open>bar\<close> key whose data and columns differ in length: \<open>process_query\<close> returns the
  failure of an inconsistent reply, although the renderer renders the parsed reply as its
  \<open>answer\<close> and does not use the \<open>bar\<close> payload.
\<close>

theorem check_ignores_renderer_priority:
  assumes "model_invoke self (full_prompt self (generate_complete_data_info pd df) q) = Inr reply_both"
  shows "json_loads reply_both
           = Inr (JObj [(u ''answer'', JStr (u ''ok'')),
                        (u ''bar'', JObj [(u ''columns'', JArr [JStr (u ''A''), JStr (u ''B'')]),
                                          (u ''data'', JArr [JInt 1])])])
       \<and> process_query json_loads pd self q df = Failure msg_inconsistent reply_both
       \<and> render_response env
            (JObj [(u ''answer'', JStr (u ''ok'')),
                   (u ''bar'', JObj [(u ''columns'', JArr [JStr (u ''A''), JStr (u ''B'')]),
                                     (u ''data'', JArr [JInt 1])])])
           = render_text_answer env (JStr (u ''ok''))
       \<and> render_text_answer env (JStr (u ''ok''))
           = [Info ([0x5206, 0x6790, 0x7ED3, 0x679C, 0x3A, 0x20] @ u ''ok'')]"
proof -
  have "process_query json_loads pd self q df = Failure msg_inconsistent reply_both"
    using assms validate_reply_both [of df]
    by (simp add: process_query_def process_query_try_def Let_def strip_reply_both
        loads_reply_both)
  moreover have "render_text_answer env (JStr (u ''ok''))
           = [Info ([0x5206, 0x6790, 0x7ED3, 0x679C, 0x3A, 0x20] @ u ''ok'')]"
    by (simp add: render_text_answer_def py_str_def)
  ultimately show ?thesis
    using loads_reply_both render_reply_both by blast
qed

theorem check_ignores_renderer_priority_witness:
  "process_query json_loads example_pandas (replying reply_both) (u ''compare A and B'')
     example_frame
   = Failure msg_inconsistent reply_both"
  using check_ignores_renderer_priority
    [where self = "replying reply_both" and pd = example_pandas and df = example_frame
       and q = "u ''compare A and B''"]
  by simp

end
